theory Spec2Isabelle
  imports Complex_Main
begin

section \<open>Hospital command center: admission and discharge workflows\<close>

text \<open>
  A shallow embedding of the parts of the application that hold its invariants: the
  domain records of \<^verbatim>\<open>types.ts\<close>, and from \<^verbatim>\<open>App.tsx\<close> the functions
  \<^verbatim>\<open>getInitialState\<close>, \<^verbatim>\<open>createNotification\<close>, \<^verbatim>\<open>handleAdmitPatient\<close> and
  \<^verbatim>\<open>handleDischargePatient\<close>. React state is passed explicitly, the browser's local
  storage is a map, and everything the code reads from outside (the AI service, the
  clock, the UUID generator) is an argument. An admission waits for the AI service, and
  other handlers run while it waits: the state it was called in and the state it commits
  to are two arguments.
\<close>

subsection \<open>Domain records (types.ts)\<close>

text \<open>
  Field names are the source's, with the record's name put in front where several
  interfaces share one (\<^verbatim>\<open>id\<close>, \<^verbatim>\<open>name\<close>). A section's \<open>capacity\<close> is the number
  that the text typed into the setup form denotes: the form keeps \<^verbatim>\<open>e.target.value\<close> as
  it is and refuses only values below 1, so 1.5 is a capacity, and the comparisons of the
  workflow convert it to a number. It is a real here. The other numbers are integers: an
  age and a seriousness are taken to be whole, and the age below \<open>10\<^sup>2\<^sup>1\<close>, where
  JavaScript prints a number in plain digits.
\<close>

record Equipment =
  equipment_id :: string
  equipment_name :: string
  total :: int
  available :: int

record Section =
  section_id :: string
  section_name :: string
  capacity :: real
  equipment :: "Equipment list"

record StaffMember =
  staff_id :: string
  staff_name :: string
  role :: string

record PatientAdmissionData =
  name :: string
  age :: int
  symptoms :: string
  seriousness :: int

record Patient = PatientAdmissionData +
  patient_id :: string
  assignedSectionId :: string
  assignedDoctorId :: string
  assignedNurseId :: string
  admissionDate :: string
  dischargeDate :: "string option"

text \<open>
  \<^verbatim>\<open>AssignmentResponse\<close> is what \<^verbatim>\<open>JSON.parse\<close> made of the AI's text, so at run
  time any field may be missing or null (\<open>None\<close>) whatever the interface says.
\<close>

record AssignmentResponse =
  sectionId :: "string option"
  doctorId :: "string option"
  nurseId :: "string option"
  reasoning :: "string option"

record Notification =
  notification_id :: string
  patientName :: string
  patientSymptoms :: string
  message :: string
  timestamp :: string

subsection \<open>JavaScript values and local storage\<close>

text \<open>
  What \<^verbatim>\<open>JSON.parse\<close> returns. Numbers are integers here, and an object is the list
  of its properties, each key once.
\<close>

datatype json =
  JNull
  | JBool bool
  | JNum int
  | JStr string
  | JArr "json list"
  | JObj "(string \<times> json) list"

text \<open>
  A string kept in local storage is represented by what the code can observe of it:
  whether it is the empty string (falsy), and what \<^verbatim>\<open>JSON.parse\<close> does with it.
\<close>

datatype stored =
  Empty
  | Garbled
  | Encodes json

text \<open>
  \<open>items\<close> is \<^verbatim>\<open>localStorage.getItem\<close> (\<open>None\<close> for \<^verbatim>\<open>null\<close>);
  \<open>refuses k\<close> says that \<^verbatim>\<open>localStorage.setItem\<close> throws on key \<open>k\<close> (quota
  exceeded).
\<close>

record localStorage =
  items :: "string \<Rightarrow> stored option"
  refuses :: "string \<Rightarrow> bool"

definition setItem :: "localStorage \<Rightarrow> string \<Rightarrow> stored \<Rightarrow> localStorage option" where
  "setItem store key v =
     (if refuses store key then None else Some (store\<lparr>items := (items store)(key \<mapsto> v)\<rparr>))"

text \<open>JavaScript truthiness of a JSON value and of a possibly missing string.\<close>

fun truthy :: "json \<Rightarrow> bool" where
  "truthy JNull = False"
| "truthy (JBool b) = b"
| "truthy (JNum n) = (n \<noteq> 0)"
| "truthy (JStr s) = (s \<noteq> [])"
| "truthy (JArr xs) = True"
| "truthy (JObj kvs) = True"

fun present :: "string option \<Rightarrow> bool" where
  "present None = False"
| "present (Some s) = (s \<noteq> [])"

text \<open>
  \<^verbatim>\<open>String.prototype.toLowerCase\<close> on the letters that matter for the comparison with
  \<^verbatim>\<open>'nurse'\<close>: A to Z go to a to z, every other character stays.
\<close>

definition toLowerChar :: "char \<Rightarrow> char" where
  "toLowerChar c =
     (case map_of (zip ''ABCDEFGHIJKLMNOPQRSTUVWXYZ'' ''abcdefghijklmnopqrstuvwxyz'') c of
        Some l \<Rightarrow> l
      | None \<Rightarrow> c)"

definition toLowerCase :: "string \<Rightarrow> string" where
  "toLowerCase s = map toLowerChar s"

text \<open>Decimal rendering of a number inside a template literal.\<close>

fun digits :: "nat \<Rightarrow> string" where
  "digits n =
     (if n < 10 then [''0123456789'' ! n]
      else digits (n div 10) @ [''0123456789'' ! (n mod 10)])"

definition toString :: "int \<Rightarrow> string" where
  "toString i = (if i < 0 then CHR ''-'' # digits (nat (- i)) else digits (nat i))"

subsection \<open>getInitialState\<close>

record initialState =
  initial_sections :: json
  initial_staff :: json
  isInitialSetup :: bool

text \<open>
  Reading a property of a parsed value, as the destructuring
  \<^verbatim>\<open>const { sections, staff } = JSON.parse(savedState)\<close> does: it throws on \<^verbatim>\<open>null\<close>
  (outer \<open>None\<close>), and gives \<^verbatim>\<open>undefined\<close> (inner \<open>None\<close>) when the value has no
  such property.
\<close>

fun property :: "json \<Rightarrow> string \<Rightarrow> json option option" where
  "property JNull k = None"
| "property (JObj kvs) k = Some (map_of kvs k)"
| "property v k = Some None"

text \<open>\<^verbatim>\<open>x || []\<close>\<close>

fun orEmptyArray :: "json option \<Rightarrow> json" where
  "orEmptyArray None = JArr []"
| "orEmptyArray (Some v) = (if truthy v then v else JArr [])"

definition firstRun :: initialState where
  "firstRun = \<lparr>initial_sections = JArr [], initial_staff = JArr [], isInitialSetup = True\<rparr>"

definition getInitialState :: "localStorage \<Rightarrow> initialState" where
  "getInitialState store =
     (case items store ''hospital_config'' of
        None \<Rightarrow> firstRun
      | Some Empty \<Rightarrow> firstRun
      | Some Garbled \<Rightarrow> firstRun
      | Some (Encodes v) \<Rightarrow>
          (case (property v ''sections'', property v ''staff'') of
             (Some sections', Some staff') \<Rightarrow>
               \<lparr>initial_sections = orEmptyArray sections',
                initial_staff = orEmptyArray staff',
                isInitialSetup = False\<rparr>
           | _ \<Rightarrow> firstRun))"

subsection \<open>Application state and the outside world\<close>

record app =
  sections :: "Section list"
  staff :: "StaffMember list"
  admittedPatients :: "Patient list"
  dischargedPatients :: "Patient list"
  storage :: localStorage

text \<open>
  The arguments of \<^verbatim>\<open>apiAssignPatient\<close>, and what the call does: it rejects, or it
  resolves to whatever the AI's JSON text parsed to (\<open>None\<close> for a falsy value).
\<close>

record request =
  newPatient :: PatientAdmissionData
  offeredSections :: "Section list"
  offeredDoctors :: "StaffMember list"
  offeredNurses :: "StaffMember list"
  admitted :: "Patient list"

datatype reply =
  Rejects
  | Resolves "AssignmentResponse option"

type_synonym resolver = "request \<Rightarrow> reply"

text \<open>
  What one admission reads from the clock and the UUID generator, in the order of the
  calls: \<^verbatim>\<open>Date.now()\<close>, \<^verbatim>\<open>new Date().toISOString()\<close> for the admission date, then
  for each notification \<^verbatim>\<open>crypto.randomUUID()\<close> and \<^verbatim>\<open>new Date().toISOString()\<close>.
\<close>

record env =
  dateNow :: nat
  isoNow :: string
  doctorUuid :: string
  doctorStamp :: string
  nurseUuid :: string
  nurseStamp :: string

subsection \<open>createNotification\<close>

definition notificationKey :: "string \<Rightarrow> string" where
  "notificationKey staffId = ''hospital_notifications_'' @ staffId"

definition newNotification :: "Patient \<Rightarrow> string \<Rightarrow> string \<Rightarrow> Notification" where
  "newNotification p uuid stamp =
     \<lparr>notification_id = ''notif_'' @ uuid,
      patientName = name p,
      patientSymptoms = symptoms p,
      message = ''You have been assigned a new patient: '' @ name p @ '' (Age: ''
                  @ toString (age p) @ '')'',
      timestamp = stamp\<rparr>"

definition notificationJson :: "Notification \<Rightarrow> json" where
  "notificationJson n =
     JObj [(''id'', JStr (notification_id n)),
           (''patientName'', JStr (patientName n)),
           (''patientSymptoms'', JStr (patientSymptoms n)),
           (''message'', JStr (message n)),
           (''timestamp'', JStr (timestamp n))]"

text \<open>
  \<^verbatim>\<open>existing ? JSON.parse(existing) : []\<close>: \<open>None\<close> when \<^verbatim>\<open>JSON.parse\<close> throws.
\<close>

fun allNotifications :: "stored option \<Rightarrow> json option" where
  "allNotifications None = Some (JArr [])"
| "allNotifications (Some Empty) = Some (JArr [])"
| "allNotifications (Some Garbled) = None"
| "allNotifications (Some (Encodes v)) = Some v"

text \<open>
  Everything that throws inside the \<^verbatim>\<open>try\<close> (the parse, \<^verbatim>\<open>push\<close> on a value that is
  not an array, \<^verbatim>\<open>setItem\<close>) ends in the \<^verbatim>\<open>catch\<close>, which only logs: the store is
  as it was.
\<close>

definition createNotification ::
  "localStorage \<Rightarrow> string \<Rightarrow> Patient \<Rightarrow> string \<Rightarrow> string \<Rightarrow> localStorage" where
  "createNotification store staffId p uuid stamp =
     (let key = notificationKey staffId;
          n = newNotification p uuid stamp
      in case allNotifications (items store key) of
           Some (JArr ns) \<Rightarrow>
             (case setItem store key (Encodes (JArr (ns @ [notificationJson n]))) of
                Some store' \<Rightarrow> store'
              | None \<Rightarrow> store)
         | _ \<Rightarrow> store)"

subsection \<open>handleAdmitPatient\<close>

text \<open>
  How an admission attempt ends: the toast shown, and for the \<^verbatim>\<open>catch\<close> branch the
  error that was thrown and logged.
\<close>

datatype thrown =
  InvalidAssignment
  | NonexistentSection
  | ResolverFailed

datatype outcome =
  NoBedsAvailable
  | NoDoctorsAvailable
  | NoNursesAvailable
  | CouldNotAssign thrown
  | SectionNowFull string
  | Admitted string string

text \<open>
  What one call of \<^verbatim>\<open>handleAdmitPatient\<close> leaves: the state, how it ended, and the
  requests it sent to \<^verbatim>\<open>apiAssignPatient\<close> (none or one).
\<close>

record admission =
  after :: app
  outcome :: outcome
  asked :: "request list"

definition admittedCount :: "Patient list \<Rightarrow> string \<Rightarrow> int" where
  "admittedCount ps sid = int (length (filter (\<lambda>p. assignedSectionId p = sid) ps))"

definition availableSections :: "app \<Rightarrow> Section list" where
  "availableSections st =
     filter (\<lambda>s. real_of_int (admittedCount (admittedPatients st) (section_id s)) < capacity s)
       (sections st)"

definition assignedDoctorIds :: "app \<Rightarrow> string set" where
  "assignedDoctorIds st = set (map assignedDoctorId (admittedPatients st))"

definition assignedNurseIds :: "app \<Rightarrow> string set" where
  "assignedNurseIds st = set (map assignedNurseId (admittedPatients st))"

definition availableDoctors :: "app \<Rightarrow> StaffMember list" where
  "availableDoctors st =
     filter (\<lambda>s. toLowerCase (role s) \<noteq> ''nurse'' \<and> staff_id s \<notin> assignedDoctorIds st) (staff st)"

definition availableNurses :: "app \<Rightarrow> StaffMember list" where
  "availableNurses st =
     filter (\<lambda>s. toLowerCase (role s) = ''nurse'' \<and> staff_id s \<notin> assignedNurseIds st) (staff st)"

definition makeRequest :: "app \<Rightarrow> PatientAdmissionData \<Rightarrow> request" where
  "makeRequest st patientData =
     \<lparr>newPatient = patientData,
      offeredSections = availableSections st,
      offeredDoctors = availableDoctors st,
      offeredNurses = availableNurses st,
      admitted = admittedPatients st\<rparr>"

definition makePatient ::
  "PatientAdmissionData \<Rightarrow> env \<Rightarrow> string \<Rightarrow> string \<Rightarrow> string \<Rightarrow> Patient" where
  "makePatient patientData e sid did nid =
     \<lparr>name = name patientData,
      age = age patientData,
      symptoms = symptoms patientData,
      seriousness = seriousness patientData,
      patient_id = ''patient_'' @ digits (dateNow e),
      assignedSectionId = sid,
      assignedDoctorId = did,
      assignedNurseId = nid,
      admissionDate = isoNow e,
      dischargeDate = None\<rparr>"

text \<open>
  Lines 177 to 181: a notification is attempted only for an id that \<^verbatim>\<open>staff.find\<close>
  finds in the staff list of the call; the key is the found member's id, which is the id
  looked for. Local storage is the browser's, as it is when these lines run.
\<close>

definition notifyStaff :: "StaffMember list \<Rightarrow> localStorage \<Rightarrow> Patient \<Rightarrow> env \<Rightarrow> localStorage" where
  "notifyStaff stf store p e =
     (let store1 =
            (case find (\<lambda>s. staff_id s = assignedDoctorId p) stf of
               Some assignedDoctor \<Rightarrow>
                 createNotification store (staff_id assignedDoctor) p
                   (doctorUuid e) (doctorStamp e)
             | None \<Rightarrow> store)
      in case find (\<lambda>s. staff_id s = assignedNurseId p) stf of
           Some assignedNurse \<Rightarrow>
             createNotification store1 (staff_id assignedNurse) p (nurseUuid e) (nurseStamp e)
         | None \<Rightarrow> store1)"

text \<open>
  The part of the function inside \<^verbatim>\<open>try\<close>, after the \<^verbatim>\<open>await\<close>. \<open>called\<close> is the
  state in which the handler was called: \<^verbatim>\<open>sections\<close>, \<^verbatim>\<open>staff\<close> and
  \<^verbatim>\<open>admittedPatients\<close> in lines 154 to 178 are the variables of that render, whatever
  happened while the call waited. \<open>current\<close> is the state when the reply is handled:
  \<^verbatim>\<open>setAdmittedPatients(prev => [...prev, newPatient])\<close> appends to the list of that
  moment, and \<^verbatim>\<open>createNotification\<close> reads and writes the local storage of that moment.
  A missing id and an empty one are both falsy.
\<close>

definition afterReply ::
  "app \<Rightarrow> app \<Rightarrow> PatientAdmissionData \<Rightarrow> env \<Rightarrow> reply \<Rightarrow> app \<times> outcome" where
  "afterReply called current patientData e r =
     (case r of
        Rejects \<Rightarrow> (current, CouldNotAssign ResolverFailed)
      | Resolves None \<Rightarrow> (current, CouldNotAssign InvalidAssignment)
      | Resolves (Some assignment) \<Rightarrow>
          (case (sectionId assignment, doctorId assignment, nurseId assignment) of
             (Some sid, Some did, Some nid) \<Rightarrow>
               if sid = [] \<or> did = [] \<or> nid = []
               then (current, CouldNotAssign InvalidAssignment)
               else
                 (case find (\<lambda>s. section_id s = sid) (sections called) of
                    None \<Rightarrow> (current, CouldNotAssign NonexistentSection)
                  | Some assignedSection \<Rightarrow>
                      if real_of_int (admittedCount (admittedPatients called) sid)
                           \<ge> capacity assignedSection
                      then (current, SectionNowFull (section_name assignedSection))
                      else
                        (let p = makePatient patientData e sid did nid
                         in (current\<lparr>admittedPatients := admittedPatients current @ [p],
                                      storage := notifyStaff (staff called) (storage current) p e\<rparr>,
                             Admitted (name patientData) (section_name assignedSection))))
           | _ \<Rightarrow> (current, CouldNotAssign InvalidAssignment)))"

text \<open>
  The whole handler. The three early returns come before the \<^verbatim>\<open>await\<close>: nothing has
  run in between, the state is left as it is. Otherwise \<^verbatim>\<open>apiAssignPatient\<close> is called
  with the candidates of the call, and its reply is handled in the state of that later
  moment.
\<close>

definition handleAdmitPatientAsync ::
  "app \<Rightarrow> app \<Rightarrow> PatientAdmissionData \<Rightarrow> resolver \<Rightarrow> env \<Rightarrow> admission" where
  "handleAdmitPatientAsync called current patientData resolve e =
     (if availableSections called = [] then
        \<lparr>after = current, outcome = NoBedsAvailable, asked = []\<rparr>
      else if availableDoctors called = [] then
        \<lparr>after = current, outcome = NoDoctorsAvailable, asked = []\<rparr>
      else if availableNurses called = [] then
        \<lparr>after = current, outcome = NoNursesAvailable, asked = []\<rparr>
      else
        (let req = makeRequest called patientData;
             (st', out) = afterReply called current patientData e (resolve req)
         in \<lparr>after = st', outcome = out, asked = [req]\<rparr>))"

text \<open>The handler when nothing else changes the state while it waits.\<close>

definition handleAdmitPatient ::
  "app \<Rightarrow> PatientAdmissionData \<Rightarrow> resolver \<Rightarrow> env \<Rightarrow> admission" where
  "handleAdmitPatient st patientData resolve e =
     handleAdmitPatientAsync st st patientData resolve e"

subsection \<open>handleDischargePatient\<close>

definition handleDischargePatient :: "app \<Rightarrow> string \<Rightarrow> string \<Rightarrow> app" where
  "handleDischargePatient st patientId now =
     (case find (\<lambda>p. patient_id p = patientId) (admittedPatients st) of
        None \<Rightarrow> st
      | Some patientToDischarge \<Rightarrow>
          st\<lparr>admittedPatients := filter (\<lambda>p. patient_id p \<noteq> patientId) (admittedPatients st),
             dischargedPatients :=
               patientToDischarge\<lparr>dischargeDate := Some now\<rparr> # dischargedPatients st\<rparr>)"

subsection \<open>Handlers over time\<close>

text \<open>
  What the page is doing at a moment: its state, and the admissions that were called and
  wait for their reply, each with the state it was called in (the variables its closure
  holds) and its form data. Nothing in the page keeps a second admission from being
  submitted while one waits: the header's button is never disabled, the handler does not
  look at \<^verbatim>\<open>isLoading\<close>, and the form's modal lies above the loading overlay.
\<close>

record session =
  live :: app
  awaiting :: "(app \<times> PatientAdmissionData) list"

text \<open>
  The events of the claims: an admission form is submitted (lines 116 to 148, up to the
  \<^verbatim>\<open>await\<close>), the reply to the \<open>i\<close>-th waiting call arrives (lines 150 to 190), a
  patient is discharged.
\<close>

datatype event =
  Submit PatientAdmissionData
  | Reply nat reply env
  | Discharge string string

fun occur :: "session \<Rightarrow> event \<Rightarrow> session" where
  "occur s (Submit patientData) =
     (if availableSections (live s) = [] \<or> availableDoctors (live s) = []
         \<or> availableNurses (live s) = []
      then s
      else s\<lparr>awaiting := awaiting s @ [(live s, patientData)]\<rparr>)"
| "occur s (Reply i r e) =
     (if i < length (awaiting s)
      then s\<lparr>live := fst (afterReply (fst (awaiting s ! i)) (live s) (snd (awaiting s ! i)) e r),
             awaiting := take i (awaiting s) @ drop (Suc i) (awaiting s)\<rparr>
      else s)"
| "occur s (Discharge patientId now) =
     s\<lparr>live := handleDischargePatient (live s) patientId now\<rparr>"

definition play :: "session \<Rightarrow> event list \<Rightarrow> session" where
  "play s evs = foldl occur s evs"

text \<open>The application as it starts: a configuration, nobody admitted, nobody discharged,
  no call waiting.\<close>

definition startWith :: "Section list \<Rightarrow> StaffMember list \<Rightarrow> localStorage \<Rightarrow> app" where
  "startWith secs stf store =
     \<lparr>sections = secs, staff = stf, admittedPatients = [], dischargedPatients = [],
      storage = store\<rparr>"

definition freshSession :: "Section list \<Rightarrow> StaffMember list \<Rightarrow> localStorage \<Rightarrow> session" where
  "freshSession secs stf store = \<lparr>live = startWith secs stf store, awaiting = []\<rparr>"

subsection \<open>Vocabulary of the properties\<close>

fun succeeded :: "outcome \<Rightarrow> bool" where
  "succeeded (Admitted patientName' sectionName) = True"
| "succeeded out = False"

text \<open>
  The three exhausted resources as the handler tests them, said without its filters:
  every section is at or above its capacity; every member whose role is not nurse stands
  in the doctor slot of some admitted patient; every nurse stands in the nurse slot of
  some admitted patient.
\<close>

definition bedsExhausted :: "app \<Rightarrow> bool" where
  "bedsExhausted st \<longleftrightarrow>
     (\<forall>s \<in> set (sections st).
        capacity s \<le> real_of_int (admittedCount (admittedPatients st) (section_id s)))"

definition doctorsExhausted :: "app \<Rightarrow> bool" where
  "doctorsExhausted st \<longleftrightarrow>
     (\<forall>m \<in> set (staff st). toLowerCase (role m) \<noteq> ''nurse'' \<longrightarrow>
        (\<exists>p \<in> set (admittedPatients st). assignedDoctorId p = staff_id m))"

definition nursesExhausted :: "app \<Rightarrow> bool" where
  "nursesExhausted st \<longleftrightarrow>
     (\<forall>m \<in> set (staff st). toLowerCase (role m) = ''nurse'' \<longrightarrow>
        (\<exists>p \<in> set (admittedPatients st). assignedNurseId p = staff_id m))"

text \<open>
  The same two as the claim says them: a member is assigned when its id stands on an
  admitted patient, in either slot.
\<close>

definition assigned :: "app \<Rightarrow> StaffMember \<Rightarrow> bool" where
  "assigned st m \<longleftrightarrow> staff_id m \<in> assignedDoctorIds st \<union> assignedNurseIds st"

definition noUnassignedDoctor :: "app \<Rightarrow> bool" where
  "noUnassignedDoctor st \<longleftrightarrow>
     (\<forall>m \<in> set (staff st). toLowerCase (role m) \<noteq> ''nurse'' \<longrightarrow> assigned st m)"

definition noUnassignedNurse :: "app \<Rightarrow> bool" where
  "noUnassignedNurse st \<longleftrightarrow>
     (\<forall>m \<in> set (staff st). toLowerCase (role m) = ''nurse'' \<longrightarrow> assigned st m)"

text \<open>
  The resolver's contract (rule 4 of its prompt): the doctor and the nurse it names are
  among the candidates it was offered.
\<close>

definition offered :: "request \<Rightarrow> reply \<Rightarrow> bool" where
  "offered req r \<longleftrightarrow>
     (case r of
        Resolves (Some a) \<Rightarrow>
          (case doctorId a of
             Some did \<Rightarrow> did \<in> staff_id ` set (offeredDoctors req)
           | None \<Rightarrow> True)
          \<and> (case nurseId a of
                Some nid \<Rightarrow> nid \<in> staff_id ` set (offeredNurses req)
              | None \<Rightarrow> True)
      | _ \<Rightarrow> True)"

text \<open>
  The contract was kept by every reply of a run: each reply fits the request that its
  call sent, made from the state the call was made in.
\<close>

fun keptContract :: "session \<Rightarrow> event list \<Rightarrow> bool" where
  "keptContract s [] = True"
| "keptContract s (Submit patientData # evs) = keptContract (occur s (Submit patientData)) evs"
| "keptContract s (Reply i r e # evs) =
     ((if i < length (awaiting s)
       then offered (makeRequest (fst (awaiting s ! i)) (snd (awaiting s ! i))) r
       else True)
      \<and> keptContract (occur s (Reply i r e)) evs)"
| "keptContract s (Discharge patientId now # evs) =
     keptContract (occur s (Discharge patientId now)) evs"

text \<open>
  No admission is submitted while another waits for its reply. Discharges may come at
  any time.
\<close>

fun admissionsApart :: "session \<Rightarrow> event list \<Rightarrow> bool" where
  "admissionsApart s [] = True"
| "admissionsApart s (Submit patientData # evs) =
     (awaiting s = [] \<and> admissionsApart (occur s (Submit patientData)) evs)"
| "admissionsApart s (Reply i r e # evs) = admissionsApart (occur s (Reply i r e)) evs"
| "admissionsApart s (Discharge patientId now # evs) =
     admissionsApart (occur s (Discharge patientId now)) evs"

text \<open>
  No staff id on two admitted patients, whichever of the two slots it stands in.
\<close>

fun staffExclusive :: "Patient list \<Rightarrow> bool" where
  "staffExclusive [] = True"
| "staffExclusive (p # ps) =
     ((\<forall>q \<in> set ps.
         assignedDoctorId q \<noteq> assignedDoctorId p \<and> assignedNurseId q \<noteq> assignedNurseId p
         \<and> assignedDoctorId q \<noteq> assignedNurseId p \<and> assignedNurseId q \<noteq> assignedDoctorId p)
      \<and> staffExclusive ps)"

text \<open>
  What a run keeps true when its admissions stay apart and the resolver keeps its
  contract. \<open>rostered\<close>: no id in two doctor slots or in two nurse slots, every doctor
  slot holds the id of a member who is not a nurse and every nurse slot the id of a
  nurse. \<open>orderly\<close>: the admitted patients are rostered, at most one call waits, and a
  waiting call was made with the staff of now and with every patient admitted now.
\<close>

definition rostered :: "StaffMember list \<Rightarrow> Patient list \<Rightarrow> bool" where
  "rostered stf ps \<longleftrightarrow>
     distinct (map assignedDoctorId ps) \<and> distinct (map assignedNurseId ps)
     \<and> (\<forall>p \<in> set ps. \<exists>m \<in> set stf.
           staff_id m = assignedDoctorId p \<and> toLowerCase (role m) \<noteq> ''nurse'')
     \<and> (\<forall>p \<in> set ps. \<exists>m \<in> set stf.
           staff_id m = assignedNurseId p \<and> toLowerCase (role m) = ''nurse'')"

definition orderly :: "session \<Rightarrow> bool" where
  "orderly s \<longleftrightarrow>
     rostered (staff (live s)) (admittedPatients (live s))
     \<and> length (awaiting s) \<le> 1
     \<and> (\<forall>w \<in> set (awaiting s).
           staff (fst w) = staff (live s)
           \<and> set (admittedPatients (live s)) \<subseteq> set (admittedPatients (fst w)))"

text \<open>
  The notifications already stored for a staff id, when \<^verbatim>\<open>createNotification\<close> can add to
  them: the key is absent or holds the empty string (no notifications yet) or an array,
  and the store accepts a write to it. \<open>inbox\<close> is that list for an id that
  \<^verbatim>\<open>staff.find\<close> finds, the only ids for which a notification is attempted.
\<close>

definition storedList :: "localStorage \<Rightarrow> string \<Rightarrow> json list option" where
  "storedList store staffId =
     (if refuses store (notificationKey staffId) then None
      else (case allNotifications (items store (notificationKey staffId)) of
              Some (JArr ns) \<Rightarrow> Some ns
            | _ \<Rightarrow> None))"

definition inbox :: "app \<Rightarrow> string \<Rightarrow> json list option" where
  "inbox st staffId =
     (if staffId \<in> staff_id ` set (staff st) then storedList (storage st) staffId else None)"

subsection \<open>A small hospital\<close>

definition icu :: Section where
  "icu = \<lparr>section_id = ''s1'', section_name = ''ICU'', capacity = 2, equipment = []\<rparr>"

definition sideRoom :: Section where
  "sideRoom = \<lparr>section_id = ''s2'', section_name = ''Side room'', capacity = 1, equipment = []\<rparr>"

definition alcove :: Section where
  "alcove = \<lparr>section_id = ''s3'', section_name = ''Alcove'', capacity = 3 / 2, equipment = []\<rparr>"

definition house :: StaffMember where
  "house = \<lparr>staff_id = ''d1'', staff_name = ''Dr. House'', role = ''General Doctor''\<rparr>"

definition wilson :: StaffMember where
  "wilson = \<lparr>staff_id = ''d2'', staff_name = ''Dr. Wilson'', role = ''Surgeon''\<rparr>"

definition florence :: StaffMember where
  "florence = \<lparr>staff_id = ''n1'', staff_name = ''Florence Nightingale'', role = ''Nurse''\<rparr>"

definition clara :: StaffMember where
  "clara = \<lparr>staff_id = ''n2'', staff_name = ''Clara Barton'', role = ''NURSE''\<rparr>"

definition emptyStorage :: localStorage where
  "emptyStorage = \<lparr>items = (\<lambda>k. None), refuses = (\<lambda>k. False)\<rparr>"

definition hospital :: app where
  "hospital = startWith [icu] [house, wilson, florence, clara] emptyStorage"

definition ann :: PatientAdmissionData where
  "ann = \<lparr>name = ''Ann'', age = 40, symptoms = ''fever'', seriousness = 5\<rparr>"

definition bob :: PatientAdmissionData where
  "bob = \<lparr>name = ''Bob'', age = 7, symptoms = ''cough'', seriousness = 2\<rparr>"

definition morning :: env where
  "morning = \<lparr>dateNow = 1730000000123, isoNow = ''2024-10-27T03:33:20.123Z'',
      doctorUuid = ''u1'', doctorStamp = ''2024-10-27T03:33:20.124Z'',
      nurseUuid = ''u2'', nurseStamp = ''2024-10-27T03:33:20.125Z''\<rparr>"

definition noon :: env where
  "noon = \<lparr>dateNow = 1730030000456, isoNow = ''2024-10-27T11:53:20.456Z'',
      doctorUuid = ''u3'', doctorStamp = ''2024-10-27T11:53:20.457Z'',
      nurseUuid = ''u4'', nurseStamp = ''2024-10-27T11:53:20.458Z''\<rparr>"

text \<open>A reply that names a section, a doctor and a nurse; and resolvers: one that takes
  the first candidate of each list, one that names a doctor nobody knows, one whose call
  fails, one that names a section the configuration does not have, one that names the
  first nurse as the doctor and the first doctor as the nurse.\<close>

definition answer :: "string \<Rightarrow> string \<Rightarrow> string \<Rightarrow> reply" where
  "answer sid did nid =
     Resolves (Some \<lparr>sectionId = Some sid, doctorId = Some did, nurseId = Some nid,
                      reasoning = Some ''best match''\<rparr>)"

definition firstOffered :: resolver where
  "firstOffered req =
     (case (offeredSections req, offeredDoctors req, offeredNurses req) of
        (s # ss, d # ds, n # ns) \<Rightarrow> answer (section_id s) (staff_id d) (staff_id n)
      | _ \<Rightarrow> Rejects)"



definition misdirected :: resolver where
  "misdirected req = answer ''s9'' ''d1'' ''n1''"

definition crossed :: resolver where
  "crossed req = answer ''s1'' ''n1'' ''d1''"

text \<open>A configuration key whose stored text is \<^verbatim>\<open>null\<close>.\<close>

definition nullConfig :: localStorage where
  "nullConfig = \<lparr>items = (\<lambda>k. if k = ''hospital_config'' then Some (Encodes JNull) else None),
      refuses = (\<lambda>k. False)\<rparr>"

definition savedConfig :: localStorage where
  "savedConfig =
     \<lparr>items = (\<lambda>k. if k = ''hospital_config''
                      then Some (Encodes (JObj [(''sections'', JArr [JObj [(''id'', JStr ''s1'')]])]))
                      else None),
      refuses = (\<lambda>k. False)\<rparr>"

text \<open>Admitted patients written down directly; \<open>bobSameMs\<close> carries the id of
  \<open>annAdmitted\<close>, as two admissions in one millisecond leave them.\<close>

definition annAdmitted :: Patient where
  "annAdmitted = makePatient ann morning ''s1'' ''d1'' ''n1''"

definition bobAdmitted :: Patient where
  "bobAdmitted = makePatient bob noon ''s1'' ''d2'' ''n2''"

definition bobSameMs :: Patient where
  "bobSameMs = makePatient bob morning ''s1'' ''d2'' ''n2''"

definition occupied :: app where
  "occupied = hospital\<lparr>admittedPatients := [annAdmitted, bobAdmitted]\<rparr>"

definition crowded :: app where
  "crowded = hospital\<lparr>admittedPatients := [annAdmitted, bobSameMs]\<rparr>"

text \<open>States in which one resource has run out.\<close>

definition shortOfDoctors :: app where
  "shortOfDoctors =
     (startWith [icu] [house, florence, clara] emptyStorage)\<lparr>admittedPatients := [annAdmitted]\<rparr>"

definition shortOfNurses :: app where
  "shortOfNurses =
     (startWith [icu] [house, wilson, florence] emptyStorage)\<lparr>admittedPatients := [annAdmitted]\<rparr>"



text \<open>
  A team with one doctor, and the state it is in after one admission answered by
  \<open>crossed\<close>: the doctor's id stands in the nurse slot of the patient.
\<close>

definition smallTeam :: app where
  "smallTeam = startWith [icu] [house, florence, clara] emptyStorage"

definition mixedUp :: app where
  "mixedUp = after (handleAdmitPatient smallTeam ann crossed morning)"

text \<open>
  A clinic whose only section has one bed, and the state it is in once Ann is admitted;
  a nook whose only section has a capacity of one and a half.
\<close>

definition clinic :: app where
  "clinic = startWith [sideRoom] [house, wilson, florence, clara] emptyStorage"

definition annInClinic :: app where
  "annInClinic = after (handleAdmitPatient clinic ann firstOffered morning)"

definition nook :: app where
  "nook = startWith [alcove] [house, wilson, florence, clara] emptyStorage"

text \<open>
  Four runs. \<open>inTurn\<close>: two admissions, one after the other, each with staff of its own.
  \<open>repeated\<close>: the same, but the second reply names the doctor and nurse of the first.
  \<open>rush\<close>: Bob's form is submitted while Ann's call waits; both calls were made with
  nobody admitted, and both replies name the first doctor and nurse, who were offered to
  both. \<open>rushBegun\<close> is \<open>rush\<close> up to Bob's reply.
\<close>

definition inTurn :: "string \<Rightarrow> event list" where
  "inTurn sid =
     [Submit ann, Reply 0 (answer sid ''d1'' ''n1'') morning,
      Submit bob, Reply 0 (answer sid ''d2'' ''n2'') noon]"

definition repeated :: "event list" where
  "repeated =
     [Submit ann, Reply 0 (answer ''s1'' ''d1'' ''n1'') morning,
      Submit bob, Reply 0 (answer ''s1'' ''d1'' ''n1'') noon]"

definition rushBegun :: "string \<Rightarrow> event list" where
  "rushBegun sid = [Submit ann, Submit bob, Reply 0 (answer sid ''d1'' ''n1'') morning]"

definition rush :: "string \<Rightarrow> event list" where
  "rush sid = rushBegun sid @ [Reply 0 (answer sid ''d1'' ''n1'') noon]"

section \<open>Properties\<close>

subsection \<open>Case analysis of the workflows\<close>

lemma afterReply_Rejects:
  "afterReply snap cur pd e Rejects = (cur, CouldNotAssign ResolverFailed)"
  by (simp add: afterReply_def)

lemma afterReply_None:
  "afterReply snap cur pd e (Resolves None) = (cur, CouldNotAssign InvalidAssignment)"
  by (simp add: afterReply_def)

lemma afterReply_missing:
  "\<not> present (sectionId a) \<or> \<not> present (doctorId a) \<or> \<not> present (nurseId a) \<Longrightarrow>
   afterReply snap cur pd e (Resolves (Some a)) = (cur, CouldNotAssign InvalidAssignment)"
  by (cases "sectionId a"; cases "doctorId a"; cases "nurseId a") (auto simp: afterReply_def)

lemma afterReply_given:
  assumes "sectionId a = Some sid" "doctorId a = Some did" "nurseId a = Some nid"
    and "sid \<noteq> []" "did \<noteq> []" "nid \<noteq> []"
  shows "afterReply snap cur pd e (Resolves (Some a)) =
     (case find (\<lambda>s. section_id s = sid) (sections snap) of
        None \<Rightarrow> (cur, CouldNotAssign NonexistentSection)
      | Some assignedSection \<Rightarrow>
          if real_of_int (admittedCount (admittedPatients snap) sid) \<ge> capacity assignedSection
          then (cur, SectionNowFull (section_name assignedSection))
          else (cur\<lparr>admittedPatients := admittedPatients cur @ [makePatient pd e sid did nid],
                    storage := notifyStaff (staff snap) (storage cur)
                                 (makePatient pd e sid did nid) e\<rparr>,
                Admitted (name pd) (section_name assignedSection)))"
  using assms by (simp add: afterReply_def Let_def split: option.split)

lemma present_iff: "present x \<longleftrightarrow> (\<exists>s. x = Some s \<and> s \<noteq> [])"
  by (cases x) auto

lemma afterReply_cases [consumes 1, case_names failed admitted]:
  assumes "afterReply snap cur pd e r = (st', out)"
  obtains "st' = cur" "\<not> succeeded out"
  | a sid did nid sec where
      "r = Resolves (Some a)"
      "sectionId a = Some sid" "doctorId a = Some did" "nurseId a = Some nid"
      "sid \<noteq> []" "did \<noteq> []" "nid \<noteq> []"
      "find (\<lambda>s. section_id s = sid) (sections snap) = Some sec"
      "real_of_int (admittedCount (admittedPatients snap) sid) < capacity sec"
      "st' = cur\<lparr>admittedPatients := admittedPatients cur @ [makePatient pd e sid did nid],
                 storage := notifyStaff (staff snap) (storage cur)
                              (makePatient pd e sid did nid) e\<rparr>"
      "out = Admitted (name pd) (section_name sec)"
proof (cases r)
  case Rejects
  with assms that(1) show thesis by (auto simp: afterReply_Rejects)
next
  case (Resolves x)
  show thesis
  proof (cases x)
    case None
    with Resolves assms that(1) show thesis by (auto simp: afterReply_None)
  next
    case (Some a)
    show thesis
    proof (cases "present (sectionId a) \<and> present (doctorId a) \<and> present (nurseId a)")
      case False
      then have "afterReply snap cur pd e (Resolves (Some a)) = (cur, CouldNotAssign InvalidAssignment)"
        by (intro afterReply_missing) auto
      with Resolves Some assms that(1) show thesis by auto
    next
      case True
      then obtain sid did nid where ids:
        "sectionId a = Some sid" "doctorId a = Some did" "nurseId a = Some nid"
        "sid \<noteq> []" "did \<noteq> []" "nid \<noteq> []"
        by (auto simp: present_iff)
      note eq = afterReply_given[OF ids, of snap cur pd e]
      show thesis
      proof (cases "find (\<lambda>s. section_id s = sid) (sections snap)")
        case None
        with eq Resolves Some assms that(1) show thesis by auto
      next
        case (Some sec)
        note sec = this
        show thesis
        proof (cases "real_of_int (admittedCount (admittedPatients snap) sid) \<ge> capacity sec")
          case True
          with eq sec Resolves \<open>x = Some a\<close> assms that(1) show thesis by auto
        next
          case False
          with eq sec Resolves \<open>x = Some a\<close> assms have
            "st' = cur\<lparr>admittedPatients := admittedPatients cur @ [makePatient pd e sid did nid],
                 storage := notifyStaff (staff snap) (storage cur)
                              (makePatient pd e sid did nid) e\<rparr>"
            "out = Admitted (name pd) (section_name sec)"
            by simp_all
          with that(2)[OF _ ids sec] Resolves \<open>x = Some a\<close> False show thesis by auto
        qed
      qed
    qed
  qed
qed

lemma find_filter_conv: "find P xs = (case filter P xs of [] \<Rightarrow> None | x # _ \<Rightarrow> Some x)"
  by (induction xs) auto

lemma handleDischargePatient_absent:
  "patientId \<notin> patient_id ` set (admittedPatients st) \<Longrightarrow> handleDischargePatient st patientId now = st"
proof -
  assume "patientId \<notin> patient_id ` set (admittedPatients st)"
  then have "find (\<lambda>p. patient_id p = patientId) (admittedPatients st) = None"
    by (auto simp: find_None_iff)
  then show ?thesis by (simp add: handleDischargePatient_def)
qed

lemma handleDischargePatient_found:
  assumes "find (\<lambda>p. patient_id p = patientId) (admittedPatients st) = Some p"
  shows "handleDischargePatient st patientId now =
     st\<lparr>admittedPatients := filter (\<lambda>p. patient_id p \<noteq> patientId) (admittedPatients st),
        dischargedPatients := p\<lparr>dischargeDate := Some now\<rparr> # dischargedPatients st\<rparr>"
  using assms by (simp add: handleDischargePatient_def)

lemma handleAdmitPatientAsync_cases [case_names rejected admitted]:
  obtains
    "after (handleAdmitPatientAsync snap cur pd resolve e) = cur"
    "\<not> succeeded (outcome (handleAdmitPatientAsync snap cur pd resolve e))"
  | a sid did nid sec where
      "availableSections snap \<noteq> []" "availableDoctors snap \<noteq> []" "availableNurses snap \<noteq> []"
      "asked (handleAdmitPatientAsync snap cur pd resolve e) = [makeRequest snap pd]"
      "resolve (makeRequest snap pd) = Resolves (Some a)"
      "sectionId a = Some sid" "doctorId a = Some did" "nurseId a = Some nid"
      "sid \<noteq> []" "did \<noteq> []" "nid \<noteq> []"
      "find (\<lambda>s. section_id s = sid) (sections snap) = Some sec"
      "real_of_int (admittedCount (admittedPatients snap) sid) < capacity sec"
      "after (handleAdmitPatientAsync snap cur pd resolve e) =
         cur\<lparr>admittedPatients := admittedPatients cur @ [makePatient pd e sid did nid],
             storage := notifyStaff (staff snap) (storage cur) (makePatient pd e sid did nid) e\<rparr>"
      "outcome (handleAdmitPatientAsync snap cur pd resolve e) =
         Admitted (name pd) (section_name sec)"
proof (cases "availableSections snap = [] \<or> availableDoctors snap = [] \<or> availableNurses snap = []")
  case True
  then have "after (handleAdmitPatientAsync snap cur pd resolve e) = cur"
    "\<not> succeeded (outcome (handleAdmitPatientAsync snap cur pd resolve e))"
    by (auto simp: handleAdmitPatientAsync_def)
  then show thesis by (rule that(1))
next
  case False
  obtain st' out where ar: "afterReply snap cur pd e (resolve (makeRequest snap pd)) = (st', out)"
    by (cases "afterReply snap cur pd e (resolve (makeRequest snap pd))") auto
  with False have h: "after (handleAdmitPatientAsync snap cur pd resolve e) = st'"
    "outcome (handleAdmitPatientAsync snap cur pd resolve e) = out"
    "asked (handleAdmitPatientAsync snap cur pd resolve e) = [makeRequest snap pd]"
    by (simp_all add: handleAdmitPatientAsync_def Let_def)
  from ar show thesis
  proof (cases rule: afterReply_cases)
    case failed
    with h that(1) show thesis by simp
  next
    case (admitted a sid did nid sec)
    with h False that(2)[of a sid did nid sec] show thesis by simp
  qed
qed

lemma handleAdmitPatient_cases [case_names rejected admitted]:
  obtains
    "after (handleAdmitPatient st pd resolve e) = st"
    "\<not> succeeded (outcome (handleAdmitPatient st pd resolve e))"
  | a sid did nid sec where
      "availableSections st \<noteq> []" "availableDoctors st \<noteq> []" "availableNurses st \<noteq> []"
      "asked (handleAdmitPatient st pd resolve e) = [makeRequest st pd]"
      "resolve (makeRequest st pd) = Resolves (Some a)"
      "sectionId a = Some sid" "doctorId a = Some did" "nurseId a = Some nid"
      "sid \<noteq> []" "did \<noteq> []" "nid \<noteq> []"
      "find (\<lambda>s. section_id s = sid) (sections st) = Some sec"
      "real_of_int (admittedCount (admittedPatients st) sid) < capacity sec"
      "after (handleAdmitPatient st pd resolve e) =
         st\<lparr>admittedPatients := admittedPatients st @ [makePatient pd e sid did nid],
            storage := notifyStaff (staff st) (storage st) (makePatient pd e sid did nid) e\<rparr>"
      "outcome (handleAdmitPatient st pd resolve e) = Admitted (name pd) (section_name sec)"
  unfolding handleAdmitPatient_def
  by (cases st st pd resolve e rule: handleAdmitPatientAsync_cases) blast+

lemma handleAdmitPatient_preflight:
  "availableSections st = [] \<or> availableDoctors st = [] \<or> availableNurses st = [] \<Longrightarrow>
   after (handleAdmitPatient st pd resolve e) = st \<and> asked (handleAdmitPatient st pd resolve e) = []"
  by (auto simp: handleAdmitPatient_def handleAdmitPatientAsync_def)

lemma handleAdmitPatient_sections [simp]:
  "sections (after (handleAdmitPatient st pd resolve e)) = sections st"
  by (cases st pd resolve e rule: handleAdmitPatient_cases) simp_all

lemma handleAdmitPatient_staff [simp]:
  "staff (after (handleAdmitPatient st pd resolve e)) = staff st"
  by (cases st pd resolve e rule: handleAdmitPatient_cases) simp_all

lemma handleAdmitPatient_discharged [simp]:
  "dischargedPatients (after (handleAdmitPatient st pd resolve e)) = dischargedPatients st"
  by (cases st pd resolve e rule: handleAdmitPatient_cases) simp_all

lemma handleDischargePatient_sections [simp]:
  "sections (handleDischargePatient st patientId now) = sections st"
  by (simp add: handleDischargePatient_def split: option.split)

lemma handleDischargePatient_staff [simp]:
  "staff (handleDischargePatient st patientId now) = staff st"
  by (simp add: handleDischargePatient_def split: option.split)

lemma handleDischargePatient_admitted:
  "admittedPatients (handleDischargePatient st patientId now) =
     filter (\<lambda>p. patient_id p \<noteq> patientId) (admittedPatients st)"
proof (cases "find (\<lambda>p. patient_id p = patientId) (admittedPatients st)")
  case None
  then have "\<forall>p \<in> set (admittedPatients st). patient_id p \<noteq> patientId"
    by (auto simp: find_None_iff)
  then have "filter (\<lambda>p. patient_id p \<noteq> patientId) (admittedPatients st) = admittedPatients st"
    by (simp add: filter_id_conv)
  with None show ?thesis by (simp add: handleDischargePatient_def)
next
  case (Some p)
  then show ?thesis by (simp add: handleDischargePatient_def)
qed


subsection \<open>Facts about the small hospital\<close>

lemma patient_id_annAdmitted: "patient_id annAdmitted = ''patient_1730000000123''"
  by (simp add: annAdmitted_def makePatient_def morning_def)

lemma patient_id_bobAdmitted: "patient_id bobAdmitted = ''patient_1730030000456''"
  by (simp add: bobAdmitted_def makePatient_def noon_def)

lemma patient_id_bobSameMs: "patient_id bobSameMs = ''patient_1730000000123''"
  by (simp add: bobSameMs_def makePatient_def morning_def)

lemma occupied_simps:
  "admittedPatients occupied = [annAdmitted, bobAdmitted]" "dischargedPatients occupied = []"
  by (simp_all add: occupied_def hospital_def startWith_def)

lemma crowded_simps:
  "admittedPatients crowded = [annAdmitted, bobSameMs]" "dischargedPatients crowded = []"
  by (simp_all add: crowded_def hospital_def startWith_def)


subsection \<open>Discharge\<close>

text \<open>
  Claim C6. For every state and patient id: if some admitted patient has that id,
  \<^verbatim>\<open>handleDischargePatient\<close> removes it from the admitted collection (what stays are the
  patients with another id, in their order) and puts exactly one record in front of the
  discharged collection, the first admitted patient with that id with \<open>dischargeDate\<close>
  set to the current time and every other field as it was; if no admitted patient has
  that id, the state is returned as it is, and there is no error branch.
\<close>

theorem discharge_moves_patient:
  "(patientId \<in> patient_id ` set (admittedPatients st) \<longrightarrow>
      (\<exists>p. find (\<lambda>p. patient_id p = patientId) (admittedPatients st) = Some p
         \<and> p \<in> set (admittedPatients st) \<and> patient_id p = patientId
         \<and> admittedPatients (handleDischargePatient st patientId now) =
             filter (\<lambda>q. patient_id q \<noteq> patientId) (admittedPatients st)
         \<and> patientId \<notin> patient_id ` set (admittedPatients (handleDischargePatient st patientId now))
         \<and> dischargedPatients (handleDischargePatient st patientId now) =
             p\<lparr>dischargeDate := Some now\<rparr> # dischargedPatients st))
   \<and> (patientId \<notin> patient_id ` set (admittedPatients st) \<longrightarrow>
        handleDischargePatient st patientId now = st)"
proof (intro conjI impI)
  assume "patientId \<in> patient_id ` set (admittedPatients st)"
  then obtain p where f: "find (\<lambda>p. patient_id p = patientId) (admittedPatients st) = Some p"
    by (cases "find (\<lambda>p. patient_id p = patientId) (admittedPatients st)")
       (auto simp: find_None_iff)
  then have m: "p \<in> set (admittedPatients st)" "patient_id p = patientId"
    by (auto simp: find_Some_iff)
  show "\<exists>p. find (\<lambda>p. patient_id p = patientId) (admittedPatients st) = Some p
         \<and> p \<in> set (admittedPatients st) \<and> patient_id p = patientId
         \<and> admittedPatients (handleDischargePatient st patientId now) =
             filter (\<lambda>q. patient_id q \<noteq> patientId) (admittedPatients st)
         \<and> patientId \<notin> patient_id ` set (admittedPatients (handleDischargePatient st patientId now))
         \<and> dischargedPatients (handleDischargePatient st patientId now) =
             p\<lparr>dischargeDate := Some now\<rparr> # dischargedPatients st"
    using f m by (intro exI[of _ p]) (auto simp: handleDischargePatient_found)
next
  assume "patientId \<notin> patient_id ` set (admittedPatients st)"
  then show "handleDischargePatient st patientId now = st"
    by (rule handleDischargePatient_absent)
qed

theorem discharge_moves_patient_witness:
  "''patient_1730000000123'' \<in> patient_id ` set (admittedPatients occupied)
   \<and> admittedPatients (handleDischargePatient occupied ''patient_1730000000123'' ''2024-10-28T09:00:00.000Z'')
       = [bobAdmitted]
   \<and> dischargedPatients (handleDischargePatient occupied ''patient_1730000000123'' ''2024-10-28T09:00:00.000Z'')
       = [annAdmitted\<lparr>dischargeDate := Some ''2024-10-28T09:00:00.000Z''\<rparr>]
   \<and> ''patient_0'' \<notin> patient_id ` set (admittedPatients occupied)
   \<and> handleDischargePatient occupied ''patient_0'' ''2024-10-28T09:00:00.000Z'' = occupied"
  using discharge_moves_patient[of "''patient_1730000000123''" occupied "''2024-10-28T09:00:00.000Z''"]
    discharge_moves_patient[of "''patient_0''" occupied "''2024-10-28T09:00:00.000Z''"]
  by (simp add: occupied_simps patient_id_annAdmitted patient_id_bobAdmitted)


text \<open>
  Claim C9. When two or more admitted patients share the id, discharging that id removes
  every one of them from the admitted collection, and only one record, made from the
  first of them, is put in front of the discharged collection.
\<close>

theorem discharge_shared_id:
  assumes "2 \<le> length (filter (\<lambda>p. patient_id p = patientId) (admittedPatients st))"
  shows "\<exists>p rest. filter (\<lambda>p. patient_id p = patientId) (admittedPatients st) = p # rest
          \<and> filter (\<lambda>p. patient_id p = patientId)
               (admittedPatients (handleDischargePatient st patientId now)) = []
          \<and> length (admittedPatients (handleDischargePatient st patientId now)) + length (p # rest)
               = length (admittedPatients st)
          \<and> dischargedPatients (handleDischargePatient st patientId now) =
               p\<lparr>dischargeDate := Some now\<rparr> # dischargedPatients st"
proof -
  from assms obtain p rest where
    pr: "filter (\<lambda>p. patient_id p = patientId) (admittedPatients st) = p # rest"
    by (cases "filter (\<lambda>p. patient_id p = patientId) (admittedPatients st)") auto
  then have f: "find (\<lambda>p. patient_id p = patientId) (admittedPatients st) = Some p"
    by (simp add: find_filter_conv)
  have len: "length (filter (\<lambda>q. patient_id q \<noteq> patientId) (admittedPatients st))
              + length (filter (\<lambda>p. patient_id p = patientId) (admittedPatients st))
              = length (admittedPatients st)"
    using sum_length_filter_compl[of "\<lambda>p. patient_id p = patientId" "admittedPatients st"]
    by (simp add: add.commute)
  show ?thesis
    using pr len by (intro exI[of _ p] exI[of _ rest]) (simp add: handleDischargePatient_found[OF f])
qed


theorem discharge_shared_id_witness:
  "2 \<le> length (filter (\<lambda>p. patient_id p = ''patient_1730000000123'') (admittedPatients crowded))
   \<and> admittedPatients (handleDischargePatient crowded ''patient_1730000000123'' ''2024-10-28T09:00:00.000Z'') = []
   \<and> dischargedPatients (handleDischargePatient crowded ''patient_1730000000123'' ''2024-10-28T09:00:00.000Z'')
       = [annAdmitted\<lparr>dischargeDate := Some ''2024-10-28T09:00:00.000Z''\<rparr>]"
  using discharge_shared_id[of "''patient_1730000000123''" crowded "''2024-10-28T09:00:00.000Z''"]
  by (simp add: crowded_simps patient_id_annAdmitted patient_id_bobSameMs)


subsection \<open>Frame\<close>


subsection \<open>More facts about the small hospital\<close>

lemma icu_simps: "section_id icu = ''s1''" "capacity icu = 2" "section_name icu = ''ICU''"
  by (simp_all add: icu_def)

lemma sideRoom_simps:
  "section_id sideRoom = ''s2''" "capacity sideRoom = 1" "section_name sideRoom = ''Side room''"
  by (simp_all add: sideRoom_def)

lemma alcove_simps:
  "section_id alcove = ''s3''" "capacity alcove = 3 / 2" "section_name alcove = ''Alcove''"
  by (simp_all add: alcove_def)

lemma staff_ids:
  "staff_id house = ''d1''" "staff_id wilson = ''d2''"
  "staff_id florence = ''n1''" "staff_id clara = ''n2''"
  by (simp_all add: house_def wilson_def florence_def clara_def)

lemma staff_roles:
  "toLowerCase (role house) \<noteq> ''nurse''" "toLowerCase (role wilson) \<noteq> ''nurse''"
  "toLowerCase (role florence) = ''nurse''" "toLowerCase (role clara) = ''nurse''"
  by (simp_all add: house_def wilson_def florence_def clara_def toLowerCase_def toLowerChar_def)

lemma annAdmitted_simps:
  "assignedSectionId annAdmitted = ''s1''" "assignedDoctorId annAdmitted = ''d1''"
  "assignedNurseId annAdmitted = ''n1''"
  by (simp_all add: annAdmitted_def makePatient_def)

lemma bobAdmitted_simps:
  "assignedSectionId bobAdmitted = ''s1''" "assignedDoctorId bobAdmitted = ''d2''"
  "assignedNurseId bobAdmitted = ''n2''"
  by (simp_all add: bobAdmitted_def makePatient_def)

lemma hospital_simps:
  "sections hospital = [icu]" "staff hospital = [house, wilson, florence, clara]"
  "admittedPatients hospital = []" "dischargedPatients hospital = []"
  "storage hospital = emptyStorage"
  by (simp_all add: hospital_def startWith_def)

lemma occupied_config:
  "sections occupied = [icu]" "staff occupied = [house, wilson, florence, clara]"
  by (simp_all add: occupied_def hospital_simps)

lemma shortOfDoctors_simps:
  "sections shortOfDoctors = [icu]" "staff shortOfDoctors = [house, florence, clara]"
  "admittedPatients shortOfDoctors = [annAdmitted]"
  by (simp_all add: shortOfDoctors_def startWith_def)

lemma shortOfNurses_simps:
  "sections shortOfNurses = [icu]" "staff shortOfNurses = [house, wilson, florence]"
  "admittedPatients shortOfNurses = [annAdmitted]"
  by (simp_all add: shortOfNurses_def startWith_def)


subsection \<open>Loading the configuration\<close>

lemma getInitialState_absent:
  "items store ''hospital_config'' = None \<or> items store ''hospital_config'' = Some Empty
   \<or> items store ''hospital_config'' = Some Garbled
   \<or> items store ''hospital_config'' = Some (Encodes JNull) \<Longrightarrow>
   getInitialState store = firstRun"
  by (auto simp: getInitialState_def)

lemma property_not_null: "v \<noteq> JNull \<Longrightarrow> \<exists>x. property v k = Some x"
  by (cases v) simp_all


text \<open>
  Claim C8, as it is written, at a stored text \<^verbatim>\<open>null\<close>: the value is present and
  \<^verbatim>\<open>JSON.parse\<close> accepts it, but destructuring \<^verbatim>\<open>null\<close> throws inside the
  \<^verbatim>\<open>try\<close>, and the result is the first-run state.
\<close>

theorem getInitialState_null_is_first_run:
  "items nullConfig ''hospital_config'' = Some (Encodes JNull)
   \<and> isInitialSetup (getInitialState nullConfig)"
  by (simp add: nullConfig_def getInitialState_def firstRun_def)


text \<open>
  Claim C8, amended. \<^verbatim>\<open>getInitialState\<close> is total (every throw of the source ends in
  its \<^verbatim>\<open>catch\<close>). When the configuration key is absent, or its text is empty, does not
  parse, or parses to \<^verbatim>\<open>null\<close>, the result is the first-run state with empty sections
  and empty staff. When the text parses to any other value, the result is not first-run
  and holds the stored \<^verbatim>\<open>sections\<close> and \<^verbatim>\<open>staff\<close>, each replaced by the empty list
  when the property is missing or falsy.
\<close>

theorem getInitialState_loads:
  "(items store ''hospital_config'' = None \<or> items store ''hospital_config'' = Some Empty
      \<or> items store ''hospital_config'' = Some Garbled
      \<or> items store ''hospital_config'' = Some (Encodes JNull) \<longrightarrow>
      getInitialState store =
        \<lparr>initial_sections = JArr [], initial_staff = JArr [], isInitialSetup = True\<rparr>)
   \<and> (items store ''hospital_config'' = Some (Encodes v) \<and> v \<noteq> JNull \<longrightarrow>
        getInitialState store =
          \<lparr>initial_sections =
             (case v of
                JObj kvs \<Rightarrow>
                  (case map_of kvs ''sections'' of
                     Some x \<Rightarrow> if truthy x then x else JArr []
                   | None \<Rightarrow> JArr [])
              | _ \<Rightarrow> JArr []),
           initial_staff =
             (case v of
                JObj kvs \<Rightarrow>
                  (case map_of kvs ''staff'' of
                     Some x \<Rightarrow> if truthy x then x else JArr []
                   | None \<Rightarrow> JArr [])
              | _ \<Rightarrow> JArr []),
           isInitialSetup = False\<rparr>)"
proof (intro conjI impI)
  assume "items store ''hospital_config'' = None \<or> items store ''hospital_config'' = Some Empty
      \<or> items store ''hospital_config'' = Some Garbled
      \<or> items store ''hospital_config'' = Some (Encodes JNull)"
  then show "getInitialState store =
        \<lparr>initial_sections = JArr [], initial_staff = JArr [], isInitialSetup = True\<rparr>"
    using getInitialState_absent[of store] by (simp add: firstRun_def)
next
  assume a: "items store ''hospital_config'' = Some (Encodes v) \<and> v \<noteq> JNull"
  then show "getInitialState store =
          \<lparr>initial_sections =
             (case v of
                JObj kvs \<Rightarrow>
                  (case map_of kvs ''sections'' of
                     Some x \<Rightarrow> if truthy x then x else JArr []
                   | None \<Rightarrow> JArr [])
              | _ \<Rightarrow> JArr []),
           initial_staff =
             (case v of
                JObj kvs \<Rightarrow>
                  (case map_of kvs ''staff'' of
                     Some x \<Rightarrow> if truthy x then x else JArr []
                   | None \<Rightarrow> JArr [])
              | _ \<Rightarrow> JArr []),
           isInitialSetup = False\<rparr>"
    by (cases v) (simp_all add: getInitialState_def split: option.split)
qed

theorem getInitialState_loads_witness:
  "items emptyStorage ''hospital_config'' = None
   \<and> getInitialState emptyStorage =
       \<lparr>initial_sections = JArr [], initial_staff = JArr [], isInitialSetup = True\<rparr>
   \<and> items savedConfig ''hospital_config'' =
       Some (Encodes (JObj [(''sections'', JArr [JObj [(''id'', JStr ''s1'')]])]))
   \<and> getInitialState savedConfig =
       \<lparr>initial_sections = JArr [JObj [(''id'', JStr ''s1'')]], initial_staff = JArr [],
        isInitialSetup = False\<rparr>"
  using getInitialState_loads[of emptyStorage JNull]
    getInitialState_loads[of savedConfig "JObj [(''sections'', JArr [JObj [(''id'', JStr ''s1'')]])]"]
  by (simp add: emptyStorage_def savedConfig_def)


subsection \<open>Notifications and the commit\<close>

lemma notificationKey_eq_iff [simp]: "notificationKey a = notificationKey b \<longleftrightarrow> a = b"
  by (simp add: notificationKey_def)

lemma find_staff_None:
  "find (\<lambda>s. staff_id s = x) stf = None \<longleftrightarrow> x \<notin> staff_id ` set stf"
  by (auto simp: find_None_iff)

lemma find_staff_Some:
  "find (\<lambda>s. staff_id s = x) stf = Some m \<Longrightarrow> staff_id m = x \<and> x \<in> staff_id ` set stf"
proof (induction stf)
  case Nil
  then show ?case by simp
next
  case (Cons s stf)
  then show ?case by (cases "staff_id s = x") auto
qed

lemma find_staff_case:
  "(case find (\<lambda>s. staff_id s = x) stf of Some m \<Rightarrow> f (staff_id m) | None \<Rightarrow> g) =
     (if x \<in> staff_id ` set stf then f x else g)"
  by (induction stf) auto

lemma notifyStaff_alt:
  "notifyStaff stf store p e =
     (let store1 =
            (if assignedDoctorId p \<in> staff_id ` set stf
             then createNotification store (assignedDoctorId p) p (doctorUuid e) (doctorStamp e)
             else store)
      in if assignedNurseId p \<in> staff_id ` set stf
         then createNotification store1 (assignedNurseId p) p (nurseUuid e) (nurseStamp e)
         else store1)"
  unfolding notifyStaff_def
  by (simp only: find_staff_case[where f = "\<lambda>i. createNotification _ i p _ _"])

lemma createNotification_appends:
  assumes "allNotifications (items store (notificationKey staffId)) = Some (JArr ns)"
    and "\<not> refuses store (notificationKey staffId)"
  shows "createNotification store staffId p uuid stamp =
     store\<lparr>items := (items store)(notificationKey staffId \<mapsto>
        Encodes (JArr (ns @ [notificationJson (newNotification p uuid stamp)])))\<rparr>"
  using assms by (simp add: createNotification_def setItem_def Let_def)

lemma createNotification_gives_up:
  assumes "(\<forall>ns. allNotifications (items store (notificationKey staffId)) \<noteq> Some (JArr ns))
           \<or> refuses store (notificationKey staffId)"
  shows "createNotification store staffId p uuid stamp = store"
  using assms
  by (auto simp: createNotification_def setItem_def Let_def split: option.split json.split)

lemma createNotification_refuses [simp]:
  "refuses (createNotification store staffId p uuid stamp) = refuses store"
  by (simp add: createNotification_def setItem_def Let_def split: option.split json.split)

lemma createNotification_elsewhere:
  "k \<noteq> notificationKey staffId \<Longrightarrow>
   items (createNotification store staffId p uuid stamp) k = items store k"
  by (simp add: createNotification_def setItem_def Let_def split: option.split json.split)


lemma createNotification_storedList:
  "createNotification store staffId p uuid stamp =
     (case storedList store staffId of
        Some ns \<Rightarrow>
          store\<lparr>items := (items store)(notificationKey staffId \<mapsto>
            Encodes (JArr (ns @ [notificationJson (newNotification p uuid stamp)])))\<rparr>
      | None \<Rightarrow> store)"
  by (simp add: createNotification_def setItem_def storedList_def Let_def
      split: option.split json.split)

lemma storedList_written:
  "storedList (store\<lparr>items := (items store)(notificationKey a \<mapsto> Encodes (JArr xs))\<rparr>) b =
     (if b = a then (if refuses store (notificationKey a) then None else Some xs)
      else storedList store b)"
  by (simp add: storedList_def)

lemma storedList_Some_writable:
  "storedList store a = Some ns \<Longrightarrow> \<not> refuses store (notificationKey a)"
  by (simp add: storedList_def split: if_splits)

lemma notifyStaff_doctor:
  assumes "inbox st (assignedDoctorId p) = Some ns"
  shows "items (notifyStaff (staff st) (storage st) p e) (notificationKey (assignedDoctorId p)) =
     Some (Encodes (JArr (ns
       @ [notificationJson (newNotification p (doctorUuid e) (doctorStamp e))]
       @ (if assignedNurseId p = assignedDoctorId p
          then [notificationJson (newNotification p (nurseUuid e) (nurseStamp e))] else []))))"
proof -
  from assms have m: "assignedDoctorId p \<in> staff_id ` set (staff st)"
    and l: "storedList (storage st) (assignedDoctorId p) = Some ns"
    by (simp_all add: inbox_def split: if_splits)
  note w = storedList_Some_writable[OF l]
  show ?thesis
  proof (cases "assignedNurseId p = assignedDoctorId p")
    case True
    with m l w show ?thesis
      by (simp add: notifyStaff_alt Let_def createNotification_storedList storedList_written)
  next
    case False
    with m l w show ?thesis
      by (simp add: notifyStaff_alt Let_def createNotification_storedList storedList_written
          split: option.split)
  qed
qed



lemma notifyStaff_refuses:
  "refuses (notifyStaff stf store p e) = refuses store"
  by (simp add: notifyStaff_alt Let_def)

lemma handleAdmitPatientAsync_commits:
  assumes "availableSections snap \<noteq> []" "availableDoctors snap \<noteq> []" "availableNurses snap \<noteq> []"
    and "resolve (makeRequest snap pd) = Resolves (Some a)"
    and "sectionId a = Some sid" "doctorId a = Some did" "nurseId a = Some nid"
    and "sid \<noteq> []" "did \<noteq> []" "nid \<noteq> []"
    and "find (\<lambda>s. section_id s = sid) (sections snap) = Some sec"
    and "real_of_int (admittedCount (admittedPatients snap) sid) < capacity sec"
  shows "handleAdmitPatientAsync snap cur pd resolve e =
     \<lparr>after = cur\<lparr>admittedPatients := admittedPatients cur @ [makePatient pd e sid did nid],
                  storage := notifyStaff (staff snap) (storage cur)
                               (makePatient pd e sid did nid) e\<rparr>,
      outcome = Admitted (name pd) (section_name sec),
      asked = [makeRequest snap pd]\<rparr>"
  using assms(1-4,11,12) afterReply_given[OF assms(5-10), of snap cur pd e]
  by (simp add: handleAdmitPatientAsync_def Let_def)

lemma handleAdmitPatient_commits:
  assumes "availableSections st \<noteq> []" "availableDoctors st \<noteq> []" "availableNurses st \<noteq> []"
    and "resolve (makeRequest st pd) = Resolves (Some a)"
    and "sectionId a = Some sid" "doctorId a = Some did" "nurseId a = Some nid"
    and "sid \<noteq> []" "did \<noteq> []" "nid \<noteq> []"
    and "find (\<lambda>s. section_id s = sid) (sections st) = Some sec"
    and "real_of_int (admittedCount (admittedPatients st) sid) < capacity sec"
  shows "handleAdmitPatient st pd resolve e =
     \<lparr>after = st\<lparr>admittedPatients := admittedPatients st @ [makePatient pd e sid did nid],
                 storage := notifyStaff (staff st) (storage st)
                              (makePatient pd e sid did nid) e\<rparr>,
      outcome = Admitted (name pd) (section_name sec),
      asked = [makeRequest st pd]\<rparr>"
  unfolding handleAdmitPatient_def
  using assms by (rule handleAdmitPatientAsync_commits)

lemma inbox_same:
  "staff st' = staff st \<Longrightarrow> storage st' = storage st \<Longrightarrow> inbox st' = inbox st"
  by (rule ext) (simp add: inbox_def)

lemma makePatient_simps:
  "assignedSectionId (makePatient pd e sid did nid) = sid"
  "assignedDoctorId (makePatient pd e sid did nid) = did"
  "assignedNurseId (makePatient pd e sid did nid) = nid"
  "admissionDate (makePatient pd e sid did nid) = isoNow e"
  "dischargeDate (makePatient pd e sid did nid) = None"
  by (simp_all add: makePatient_def)

lemma find_section_Some:
  "find (\<lambda>s. section_id s = sid) secs = Some sec \<Longrightarrow> sec \<in> set secs \<and> section_id sec = sid"
proof (induction secs)
  case Nil
  then show ?case by simp
next
  case (Cons s secs)
  then show ?case by (cases "section_id s = sid") auto
qed



subsection \<open>Admissions in the small hospital\<close>


lemma hospital_free:
  "availableSections hospital = [icu]" "availableDoctors hospital = [house, wilson]"
  "availableNurses hospital = [florence, clara]"
  by (simp_all add: availableSections_def availableDoctors_def availableNurses_def assignedDoctorIds_def
      assignedNurseIds_def admittedCount_def hospital_simps icu_simps staff_roles)




lemma admits:
  assumes "availableSections st \<noteq> []" "availableDoctors st \<noteq> []" "availableNurses st \<noteq> []"
    and "resolve (makeRequest st pd) = answer sid did nid"
    and "sid \<noteq> []" "did \<noteq> []" "nid \<noteq> []"
    and "find (\<lambda>s. section_id s = sid) (sections st) = Some sec"
    and "real_of_int (admittedCount (admittedPatients st) sid) < capacity sec"
  shows "handleAdmitPatient st pd resolve e =
     \<lparr>after = st\<lparr>admittedPatients := admittedPatients st @ [makePatient pd e sid did nid],
                 storage := notifyStaff (staff st) (storage st)
                              (makePatient pd e sid did nid) e\<rparr>,
      outcome = Admitted (name pd) (section_name sec),
      asked = [makeRequest st pd]\<rparr>"
  using assms(1-3) assms(4)[unfolded answer_def] _ _ _ assms(5-9)
  by (rule handleAdmitPatient_commits) simp_all








subsection \<open>Admission: all or nothing\<close>






subsection \<open>Notification fan-out\<close>





subsection \<open>Admission: rejections before the resolver is asked\<close>

lemma availableSections_empty_iff: "availableSections st = [] \<longleftrightarrow> bedsExhausted st"
  by (auto simp: availableSections_def bedsExhausted_def filter_empty_conv not_less)

lemma availableDoctors_empty_iff: "availableDoctors st = [] \<longleftrightarrow> doctorsExhausted st"
  by (force simp: availableDoctors_def doctorsExhausted_def assignedDoctorIds_def filter_empty_conv image_iff)

lemma availableNurses_empty_iff: "availableNurses st = [] \<longleftrightarrow> nursesExhausted st"
  by (force simp: availableNurses_def nursesExhausted_def assignedNurseIds_def filter_empty_conv image_iff)

text \<open>
  The handler's tests are the narrower ones: a member who stands in a doctor slot, or a
  nurse who stands in a nurse slot, is assigned.
\<close>

lemma exhausted_noUnassigned:
  "doctorsExhausted st \<Longrightarrow> noUnassignedDoctor st"
  "nursesExhausted st \<Longrightarrow> noUnassignedNurse st"
  unfolding doctorsExhausted_def nursesExhausted_def noUnassignedDoctor_def noUnassignedNurse_def
    assigned_def assignedDoctorIds_def assignedNurseIds_def
  by (simp_all add: image_iff) metis+

lemma smallTeam_simps:
  "sections smallTeam = [icu]" "staff smallTeam = [house, florence, clara]"
  "admittedPatients smallTeam = []" "storage smallTeam = emptyStorage"
  by (simp_all add: smallTeam_def startWith_def)

lemma smallTeam_free:
  "availableSections smallTeam = [icu]" "availableDoctors smallTeam = [house]"
  "availableNurses smallTeam = [florence, clara]"
  by (simp_all add: availableSections_def availableDoctors_def availableNurses_def assignedDoctorIds_def
      assignedNurseIds_def smallTeam_simps icu_simps admittedCount_def staff_roles)

lemma mixedUp_simps:
  "sections mixedUp = [icu]" "staff mixedUp = [house, florence, clara]"
  "admittedPatients mixedUp = [makePatient ann morning ''s1'' ''n1'' ''d1'']"
proof -
  have "handleAdmitPatient smallTeam ann crossed morning =
     \<lparr>after = smallTeam\<lparr>admittedPatients :=
                  admittedPatients smallTeam @ [makePatient ann morning ''s1'' ''n1'' ''d1''],
          storage := notifyStaff (staff smallTeam) (storage smallTeam)
                       (makePatient ann morning ''s1'' ''n1'' ''d1'') morning\<rparr>,
      outcome = Admitted (name ann) (section_name icu),
      asked = [makeRequest smallTeam ann]\<rparr>"
    by (rule admits[where sec = icu])
       (simp_all add: crossed_def smallTeam_free smallTeam_simps icu_simps admittedCount_def)
  then show "sections mixedUp = [icu]" "staff mixedUp = [house, florence, clara]"
    "admittedPatients mixedUp = [makePatient ann morning ''s1'' ''n1'' ''d1'']"
    by (simp_all add: mixedUp_def smallTeam_simps)
qed

lemma mixedUp_free:
  "availableSections mixedUp = [icu]" "availableDoctors mixedUp = [house]"
  "availableNurses mixedUp = [florence, clara]"
  by (simp_all add: availableSections_def availableDoctors_def availableNurses_def assignedDoctorIds_def
      assignedNurseIds_def mixedUp_simps icu_simps admittedCount_def staff_roles staff_ids
      makePatient_simps)


text \<open>
  Claim C4, as it is written, in a state that one admission answered by \<open>crossed\<close> leaves:
  a bed is free, and the only member with a role other than nurse is assigned, as the
  nurse of the admitted patient, so no such member is unassigned. The handler counts a
  member as assigned only when its id stands in a doctor slot: the resolver is called,
  that member is offered to it, and a second patient is admitted with that doctor.
\<close>

theorem doctor_in_nurse_slot_is_offered:
  "\<not> bedsExhausted mixedUp
   \<and> noUnassignedDoctor mixedUp
   \<and> asked (handleAdmitPatient mixedUp bob firstOffered noon) = [makeRequest mixedUp bob]
   \<and> offeredDoctors (makeRequest mixedUp bob) = [house]
   \<and> outcome (handleAdmitPatient mixedUp bob firstOffered noon) = Admitted ''Bob'' ''ICU''
   \<and> admittedPatients (after (handleAdmitPatient mixedUp bob firstOffered noon))
       = [makePatient ann morning ''s1'' ''n1'' ''d1'', makePatient bob noon ''s1'' ''d1'' ''n1'']"
proof -
  have 1: "noUnassignedDoctor mixedUp"
    by (simp add: noUnassignedDoctor_def assigned_def assignedDoctorIds_def assignedNurseIds_def
        mixedUp_simps staff_roles staff_ids makePatient_simps)
  have 2: "firstOffered (makeRequest mixedUp bob) = answer ''s1'' ''d1'' ''n1''"
    by (simp add: firstOffered_def makeRequest_def mixedUp_free icu_simps staff_ids)
  have 3: "handleAdmitPatient mixedUp bob firstOffered noon =
     \<lparr>after = mixedUp\<lparr>admittedPatients :=
                  admittedPatients mixedUp @ [makePatient bob noon ''s1'' ''d1'' ''n1''],
          storage := notifyStaff (staff mixedUp) (storage mixedUp)
                       (makePatient bob noon ''s1'' ''d1'' ''n1'') noon\<rparr>,
      outcome = Admitted (name bob) (section_name icu),
      asked = [makeRequest mixedUp bob]\<rparr>"
    by (rule admits[where sec = icu])
       (simp_all add: 2 mixedUp_free mixedUp_simps icu_simps admittedCount_def makePatient_simps)
  have 4: "offeredDoctors (makeRequest mixedUp bob) = [house]"
    by (simp add: makeRequest_def mixedUp_free)
  have 5: "\<not> bedsExhausted mixedUp"
    by (simp add: bedsExhausted_def mixedUp_simps icu_simps admittedCount_def makePatient_simps)
  from 1 3 4 5 show ?thesis
    by (simp add: mixedUp_simps icu_simps bob_def)
qed


text \<open>
  Claim C4, amended. If every section's admitted count is at or above its capacity, or
  every member with a role other than nurse (compared in lower case) is the doctor of an
  admitted patient, or every nurse is the nurse of an admitted patient, then the
  admission ends with the error of the first exhausted resource in the order beds,
  doctors, nurses; the resolver is not called, and the state is returned as it was.
\<close>

theorem preflight_rejection:
  assumes "bedsExhausted st \<or> doctorsExhausted st \<or> nursesExhausted st"
  shows "outcome (handleAdmitPatient st patientData resolve e) =
           (if bedsExhausted st then NoBedsAvailable
            else if doctorsExhausted st then NoDoctorsAvailable
            else NoNursesAvailable)
         \<and> asked (handleAdmitPatient st patientData resolve e) = []
         \<and> after (handleAdmitPatient st patientData resolve e) = st"
  using assms
  by (auto simp: handleAdmitPatient_def handleAdmitPatientAsync_def availableSections_empty_iff
      availableDoctors_empty_iff availableNurses_empty_iff)

theorem preflight_rejection_witness:
  "bedsExhausted occupied
   \<and> outcome (handleAdmitPatient occupied bob firstOffered noon) = NoBedsAvailable
   \<and> asked (handleAdmitPatient occupied bob firstOffered noon) = []
   \<and> after (handleAdmitPatient occupied bob firstOffered noon) = occupied
   \<and> \<not> bedsExhausted shortOfDoctors \<and> doctorsExhausted shortOfDoctors
   \<and> outcome (handleAdmitPatient shortOfDoctors bob firstOffered noon) = NoDoctorsAvailable
   \<and> asked (handleAdmitPatient shortOfDoctors bob firstOffered noon) = []
   \<and> after (handleAdmitPatient shortOfDoctors bob firstOffered noon) = shortOfDoctors
   \<and> \<not> bedsExhausted shortOfNurses \<and> \<not> doctorsExhausted shortOfNurses
   \<and> nursesExhausted shortOfNurses
   \<and> outcome (handleAdmitPatient shortOfNurses bob firstOffered noon) = NoNursesAvailable
   \<and> asked (handleAdmitPatient shortOfNurses bob firstOffered noon) = []
   \<and> after (handleAdmitPatient shortOfNurses bob firstOffered noon) = shortOfNurses"
proof -
  have 1: "bedsExhausted occupied"
    by (simp add: bedsExhausted_def admittedCount_def occupied_config occupied_simps icu_simps
        annAdmitted_simps bobAdmitted_simps)
  have 2: "\<not> bedsExhausted shortOfDoctors" "doctorsExhausted shortOfDoctors"
    by (simp_all add: bedsExhausted_def doctorsExhausted_def admittedCount_def
        shortOfDoctors_simps icu_simps annAdmitted_simps staff_ids staff_roles)
  have 3: "\<not> bedsExhausted shortOfNurses" "\<not> doctorsExhausted shortOfNurses"
    "nursesExhausted shortOfNurses"
    by (simp_all add: bedsExhausted_def doctorsExhausted_def nursesExhausted_def
        admittedCount_def shortOfNurses_simps icu_simps annAdmitted_simps staff_ids staff_roles)
  show ?thesis
    using 1 2 3 preflight_rejection[of occupied bob firstOffered noon] preflight_rejection[of shortOfDoctors bob firstOffered noon]
      preflight_rejection[of shortOfNurses bob firstOffered noon]
    by simp
qed


subsection \<open>Admission: replies that cannot be used\<close>

text \<open>
  A call that fails, a response that is absent or lacks one of the three ids, and a
  section id that the configuration of the call does not have, leave the admitted
  collection and local storage as they are when the reply is handled.
\<close>

lemma no_usable_reply:
  assumes "resolve (makeRequest called patientData) = Rejects
           \<or> resolve (makeRequest called patientData) = Resolves None
           \<or> (\<exists>a. resolve (makeRequest called patientData) = Resolves (Some a)
                 \<and> (\<not> present (sectionId a) \<or> \<not> present (doctorId a) \<or> \<not> present (nurseId a)
                     \<or> the (sectionId a) \<notin> section_id ` set (sections called)))"
  shows "\<not> succeeded (outcome (handleAdmitPatientAsync called current patientData resolve e))
         \<and> after (handleAdmitPatientAsync called current patientData resolve e) = current"
proof (cases called current patientData resolve e rule: handleAdmitPatientAsync_cases)
  case rejected
  then show ?thesis by simp
next
  case (admitted a sid did nid sec)
  from find_section_Some[OF admitted(12)] have "sid \<in> section_id ` set (sections called)"
    by auto
  with assms admitted(5-11) show ?thesis
    by auto
qed

text \<open>
  The capacity test on the reply counts the admitted patients of the state the call was
  made in. When the section has filled up since, the count that is compared is the old
  one.
\<close>

lemma clinic_simps:
  "sections clinic = [sideRoom]" "staff clinic = [house, wilson, florence, clara]"
  "admittedPatients clinic = []" "storage clinic = emptyStorage"
  by (simp_all add: clinic_def startWith_def)

lemma clinic_free:
  "availableSections clinic = [sideRoom]" "availableDoctors clinic = [house, wilson]"
  "availableNurses clinic = [florence, clara]"
  by (simp_all add: availableSections_def availableDoctors_def availableNurses_def assignedDoctorIds_def
      assignedNurseIds_def clinic_simps sideRoom_simps admittedCount_def staff_roles)

lemma firstOffered_clinic:
  "firstOffered (makeRequest clinic pd) = answer ''s2'' ''d1'' ''n1''"
  by (simp add: firstOffered_def makeRequest_def clinic_free sideRoom_simps staff_ids)

lemma annInClinic_simps:
  "sections annInClinic = [sideRoom]" "staff annInClinic = [house, wilson, florence, clara]"
  "admittedPatients annInClinic = [makePatient ann morning ''s2'' ''d1'' ''n1'']"
  "storage annInClinic = notifyStaff (staff clinic) (storage clinic)
                           (makePatient ann morning ''s2'' ''d1'' ''n1'') morning"
proof -
  have "handleAdmitPatient clinic ann firstOffered morning =
     \<lparr>after = clinic\<lparr>admittedPatients :=
                  admittedPatients clinic @ [makePatient ann morning ''s2'' ''d1'' ''n1''],
          storage := notifyStaff (staff clinic) (storage clinic)
                       (makePatient ann morning ''s2'' ''d1'' ''n1'') morning\<rparr>,
      outcome = Admitted (name ann) (section_name sideRoom),
      asked = [makeRequest clinic ann]\<rparr>"
    by (rule admits[where sec = sideRoom])
       (simp_all add: firstOffered_clinic clinic_free clinic_simps sideRoom_simps admittedCount_def)
  then show "sections annInClinic = [sideRoom]" "staff annInClinic = [house, wilson, florence, clara]"
    "admittedPatients annInClinic = [makePatient ann morning ''s2'' ''d1'' ''n1'']"
    "storage annInClinic = notifyStaff (staff clinic) (storage clinic)
                           (makePatient ann morning ''s2'' ''d1'' ''n1'') morning"
    by (simp_all add: annInClinic_def clinic_simps)
qed

lemma inbox_clinic: "inbox clinic ''d1'' = Some []"
  by (simp add: inbox_def storedList_def clinic_simps emptyStorage_def staff_ids)

lemma inbox_annInClinic:
  "inbox annInClinic ''d1'' =
     Some [notificationJson (newNotification (makePatient ann morning ''s2'' ''d1'' ''n1'')
             (doctorUuid morning) (doctorStamp morning))]"
proof -
  have "items (storage annInClinic) (notificationKey ''d1'') =
      Some (Encodes (JArr [notificationJson (newNotification (makePatient ann morning ''s2'' ''d1'' ''n1'')
             (doctorUuid morning) (doctorStamp morning))]))"
    using notifyStaff_doctor[of clinic "makePatient ann morning ''s2'' ''d1'' ''n1''" "[]" morning]
    by (simp add: annInClinic_simps makePatient_simps inbox_clinic)
  moreover have "refuses (storage annInClinic) (notificationKey ''d1'') = False"
    by (simp add: annInClinic_simps notifyStaff_refuses clinic_simps emptyStorage_def)
  ultimately show ?thesis
    by (simp add: inbox_def storedList_def annInClinic_simps staff_ids)
qed


text \<open>
  Claim C5, at a reply that names a section whose admitted count has reached its
  capacity. Bob's call is made in the empty clinic and its reply is handled once Ann is
  in the only bed: the side room has capacity 1 and one admitted patient, the reply names
  it, and yet the admission succeeds, Bob is appended, and a notification is added to the
  doctor's list.
\<close>

theorem admitted_to_a_section_that_filled_up:
  "capacity sideRoom = 1
   \<and> sections annInClinic = [sideRoom]
   \<and> admittedCount (admittedPatients annInClinic) (section_id sideRoom) = 1
   \<and> firstOffered (makeRequest clinic bob) = answer (section_id sideRoom) ''d1'' ''n1''
   \<and> succeeded (outcome (handleAdmitPatientAsync clinic annInClinic bob firstOffered noon))
   \<and> admittedPatients (after (handleAdmitPatientAsync clinic annInClinic bob firstOffered noon))
       = admittedPatients annInClinic @ [makePatient bob noon ''s2'' ''d1'' ''n1'']
   \<and> inbox annInClinic ''d1''
       = Some [notificationJson (newNotification (makePatient ann morning ''s2'' ''d1'' ''n1'')
                 (doctorUuid morning) (doctorStamp morning))]
   \<and> inbox (after (handleAdmitPatientAsync clinic annInClinic bob firstOffered noon)) ''d1''
       = Some [notificationJson (newNotification (makePatient ann morning ''s2'' ''d1'' ''n1'')
                 (doctorUuid morning) (doctorStamp morning)),
               notificationJson (newNotification (makePatient bob noon ''s2'' ''d1'' ''n1'')
                 (doctorUuid noon) (doctorStamp noon))]"
proof -
  let ?b = "makePatient bob noon ''s2'' ''d1'' ''n1''"
  have run: "handleAdmitPatientAsync clinic annInClinic bob firstOffered noon =
     \<lparr>after = annInClinic\<lparr>admittedPatients := admittedPatients annInClinic @ [?b],
          storage := notifyStaff (staff clinic) (storage annInClinic) ?b noon\<rparr>,
      outcome = Admitted (name bob) (section_name sideRoom),
      asked = [makeRequest clinic bob]\<rparr>"
    by (rule handleAdmitPatientAsync_commits[where sec = sideRoom
          and a = "\<lparr>sectionId = Some ''s2'', doctorId = Some ''d1'', nurseId = Some ''n1'',
                     reasoning = Some ''best match''\<rparr>"])
       (simp_all add: firstOffered_clinic answer_def clinic_free clinic_simps sideRoom_simps
          admittedCount_def)
  have count: "admittedCount (admittedPatients annInClinic) (section_id sideRoom) = 1"
    by (simp add: admittedCount_def annInClinic_simps sideRoom_simps makePatient_simps)
  have sto: "items (notifyStaff (staff annInClinic) (storage annInClinic) ?b noon) (notificationKey ''d1'') =
      Some (Encodes (JArr [notificationJson (newNotification (makePatient ann morning ''s2'' ''d1'' ''n1'')
                 (doctorUuid morning) (doctorStamp morning)),
               notificationJson (newNotification ?b (doctorUuid noon) (doctorStamp noon))]))"
    using notifyStaff_doctor[of annInClinic ?b _ noon]
    by (simp add: makePatient_simps inbox_annInClinic)
  have ref: "refuses (notifyStaff (staff annInClinic) (storage annInClinic) ?b noon) (notificationKey ''d1'') = False"
    by (simp add: annInClinic_simps notifyStaff_refuses clinic_simps emptyStorage_def)
  have after: "inbox (after (handleAdmitPatientAsync clinic annInClinic bob firstOffered noon)) ''d1''
       = Some [notificationJson (newNotification (makePatient ann morning ''s2'' ''d1'' ''n1'')
                 (doctorUuid morning) (doctorStamp morning)),
               notificationJson (newNotification ?b (doctorUuid noon) (doctorStamp noon))]"
    using sto ref
    by (simp add: run inbox_def storedList_def annInClinic_simps(1,2) clinic_simps(1,2) staff_ids)
  from run count after show ?thesis
    by (simp add: sideRoom_simps annInClinic_simps(1) firstOffered_clinic inbox_annInClinic)
qed

subsection \<open>Runs: one event after another\<close>

lemma play_Nil [simp]: "play s [] = s"
  by (simp add: play_def)

lemma play_Cons [simp]: "play s (ev # evs) = play (occur s ev) evs"
  by (simp add: play_def)

lemma afterReply_frame:
  "sections (fst (afterReply snap cur pd e r)) = sections cur"
  "staff (fst (afterReply snap cur pd e r)) = staff cur"
  "dischargedPatients (fst (afterReply snap cur pd e r)) = dischargedPatients cur"
proof -
  obtain st' out where eq: "afterReply snap cur pd e r = (st', out)"
    by (cases "afterReply snap cur pd e r")
  then have "sections st' = sections cur \<and> staff st' = staff cur
      \<and> dischargedPatients st' = dischargedPatients cur"
    by (cases rule: afterReply_cases) simp_all
  with eq show "sections (fst (afterReply snap cur pd e r)) = sections cur"
    "staff (fst (afterReply snap cur pd e r)) = staff cur"
    "dischargedPatients (fst (afterReply snap cur pd e r)) = dischargedPatients cur"
    by simp_all
qed

lemma occur_staff [simp]: "staff (live (occur s ev)) = staff (live s)"
  by (cases ev) (simp_all add: afterReply_frame)

lemma occur_sections [simp]: "sections (live (occur s ev)) = sections (live s)"
  by (cases ev) (simp_all add: afterReply_frame)

text \<open>
  A form whose reply is handled before anything else happens is one call of
  \<^verbatim>\<open>handleAdmitPatient\<close> in the state of the page.
\<close>

lemma submit_then_reply:
  assumes "awaiting s = []"
  shows "live (play s [Submit patientData, Reply 0 (resolve (makeRequest (live s) patientData)) e])
           = after (handleAdmitPatient (live s) patientData resolve e)"
  using assms
  by (simp add: handleAdmitPatient_def handleAdmitPatientAsync_def Let_def split: prod.split)

lemma occur_Submit_waits:
  assumes "availableSections (live s) \<noteq> []" "availableDoctors (live s) \<noteq> []"
    "availableNurses (live s) \<noteq> []"
  shows "occur s (Submit pd) = s\<lparr>awaiting := awaiting s @ [(live s, pd)]\<rparr>"
  using assms by simp

lemma afterReply_answer:
  assumes "sid \<noteq> []" "did \<noteq> []" "nid \<noteq> []"
    and "find (\<lambda>s. section_id s = sid) (sections snap) = Some sec"
    and "real_of_int (admittedCount (admittedPatients snap) sid) < capacity sec"
  shows "afterReply snap cur pd e (answer sid did nid) =
     (cur\<lparr>admittedPatients := admittedPatients cur @ [makePatient pd e sid did nid],
          storage := notifyStaff (staff snap) (storage cur) (makePatient pd e sid did nid) e\<rparr>,
      Admitted (name pd) (section_name sec))"
  unfolding answer_def using assms
  by (subst afterReply_given[where sid = sid and did = did and nid = nid]) simp_all

lemma offered_answer:
  "offered req (answer sid did nid) \<longleftrightarrow>
     did \<in> staff_id ` set (offeredDoctors req) \<and> nid \<in> staff_id ` set (offeredNurses req)"
  by (simp add: offered_def answer_def)


subsection \<open>Runs: what staff exclusivity rests on\<close>

lemma staffExclusive_from_distinct:
  assumes "distinct (map assignedDoctorId ps)" "distinct (map assignedNurseId ps)"
    and "set (map assignedDoctorId ps) \<inter> set (map assignedNurseId ps) = {}"
  shows "staffExclusive ps"
  using assms
proof (induction ps)
  case Nil
  then show ?case by simp
next
  case (Cons p ps)
  then have "staffExclusive ps" by auto
  moreover from Cons.prems have "\<forall>q \<in> set ps.
         assignedDoctorId q \<noteq> assignedDoctorId p \<and> assignedNurseId q \<noteq> assignedNurseId p
         \<and> assignedDoctorId q \<noteq> assignedNurseId p \<and> assignedNurseId q \<noteq> assignedDoctorId p"
    by (auto simp: image_iff)
  ultimately show ?case by simp
qed

lemma rostered_disjoint:
  assumes d: "distinct (map staff_id stf)"
    and r: "rostered stf ps"
  shows "set (map assignedDoctorId ps) \<inter> set (map assignedNurseId ps) = {}"
proof (rule ccontr)
  assume "set (map assignedDoctorId ps) \<inter> set (map assignedNurseId ps) \<noteq> {}"
  then obtain p q where pq: "p \<in> set ps" "q \<in> set ps" "assignedDoctorId p = assignedNurseId q"
    by (auto simp: image_iff)
  from r pq(1) obtain m where m: "m \<in> set stf" "staff_id m = assignedDoctorId p"
    "toLowerCase (role m) \<noteq> ''nurse''" unfolding rostered_def by blast
  from r pq(2) obtain n where n: "n \<in> set stf" "staff_id n = assignedNurseId q"
    "toLowerCase (role n) = ''nurse''" unfolding rostered_def by blast
  from d m(1,2) n(1,2) pq(3) have "m = n"
    by (metis distinct_map inj_onD)
  with m(3) n(3) show False by simp
qed

lemma rostered_exclusive:
  "distinct (map staff_id stf) \<Longrightarrow> rostered stf ps \<Longrightarrow> staffExclusive ps"
proof -
  assume d: "distinct (map staff_id stf)" and r: "rostered stf ps"
  from r have "distinct (map assignedDoctorId ps)" "distinct (map assignedNurseId ps)"
    by (simp_all add: rostered_def)
  then show "staffExclusive ps"
    using rostered_disjoint[OF d r] by (rule staffExclusive_from_distinct)
qed

lemma rostered_filter: "rostered stf ps \<Longrightarrow> rostered stf (filter P ps)"
  by (simp add: rostered_def distinct_map_filter)

lemma rostered_append:
  assumes r: "rostered stf ps"
    and m: "m \<in> set stf" "staff_id m = did" "toLowerCase (role m) \<noteq> ''nurse''"
      "did \<notin> assignedDoctorId ` set ps"
    and n: "n \<in> set stf" "staff_id n = nid" "toLowerCase (role n) = ''nurse''"
      "nid \<notin> assignedNurseId ` set ps"
  shows "rostered stf (ps @ [makePatient pd e sid did nid])"
proof -
  have 1: "distinct (map assignedDoctorId (ps @ [makePatient pd e sid did nid]))"
    using r m(4) by (simp add: rostered_def makePatient_simps)
  have 2: "distinct (map assignedNurseId (ps @ [makePatient pd e sid did nid]))"
    using r n(4) by (simp add: rostered_def makePatient_simps)
  have 3: "\<forall>p \<in> set (ps @ [makePatient pd e sid did nid]). \<exists>m \<in> set stf.
             staff_id m = assignedDoctorId p \<and> toLowerCase (role m) \<noteq> ''nurse''"
    using r m(1-3) by (auto simp: rostered_def makePatient_simps)
  have 4: "\<forall>p \<in> set (ps @ [makePatient pd e sid did nid]). \<exists>m \<in> set stf.
             staff_id m = assignedNurseId p \<and> toLowerCase (role m) = ''nurse''"
    using r n(1-3) by (auto simp: rostered_def makePatient_simps)
  from 1 2 3 4 show ?thesis
    unfolding rostered_def by blast
qed

lemma orderly_Submit:
  assumes "orderly s" "awaiting s = []"
  shows "orderly (occur s (Submit pd))"
  using assms by (simp add: orderly_def)

lemma orderly_Discharge:
  assumes "orderly s"
  shows "orderly (occur s (Discharge patientId now))"
proof -
  have adm: "admittedPatients (handleDischargePatient (live s) patientId now)
      = filter (\<lambda>p. patient_id p \<noteq> patientId) (admittedPatients (live s))"
    by (rule handleDischargePatient_admitted)
  from assms show ?thesis
    by (auto simp: orderly_def adm rostered_filter)
qed

lemma orderly_Reply:
  assumes o: "orderly s"
    and k: "i < length (awaiting s) \<Longrightarrow>
            offered (makeRequest (fst (awaiting s ! i)) (snd (awaiting s ! i))) r"
  shows "orderly (occur s (Reply i r e))"
proof (cases "i < length (awaiting s)")
  case False
  with o show ?thesis by simp
next
  case True
  with o have i: "i = 0" and len: "length (awaiting s) = 1"
    by (simp_all add: orderly_def)
  then obtain snap pd where w: "awaiting s = [(snap, pd)]"
    by (cases "awaiting s") auto
  from o w have snap: "staff snap = staff (live s)"
    "set (admittedPatients (live s)) \<subseteq> set (admittedPatients snap)"
    and r: "rostered (staff (live s)) (admittedPatients (live s))"
    by (simp_all add: orderly_def)
  from k True i w have off: "offered (makeRequest snap pd) r" by simp
  obtain st' out where eq: "afterReply snap (live s) pd e r = (st', out)"
    by (cases "afterReply snap (live s) pd e r")
  have occ: "occur s (Reply i r e) = s\<lparr>live := st', awaiting := []\<rparr>"
    using i w eq by simp
  from eq have "rostered (staff (live s)) (admittedPatients st') \<and> staff st' = staff (live s)"
  proof (cases rule: afterReply_cases)
    case failed
    with r show ?thesis by simp
  next
    case (admitted a sid did nid sec)
    from off admitted(1,3,4) have "did \<in> staff_id ` set (availableDoctors snap)"
      "nid \<in> staff_id ` set (availableNurses snap)"
      by (simp_all add: offered_def makeRequest_def)
    then obtain m n where m: "m \<in> set (staff snap)" "staff_id m = did"
        "toLowerCase (role m) \<noteq> ''nurse''" "did \<notin> assignedDoctorIds snap"
      and n: "n \<in> set (staff snap)" "staff_id n = nid" "toLowerCase (role n) = ''nurse''"
        "nid \<notin> assignedNurseIds snap"
      by (auto simp: availableDoctors_def availableNurses_def)
    from m(4) snap(2) have m4: "did \<notin> assignedDoctorId ` set (admittedPatients (live s))"
      by (auto simp: assignedDoctorIds_def)
    from n(4) snap(2) have n4: "nid \<notin> assignedNurseId ` set (admittedPatients (live s))"
      by (auto simp: assignedNurseIds_def)
    have "rostered (staff (live s)) (admittedPatients (live s) @ [makePatient pd e sid did nid])"
      using r m(1-3) m4 n(1-3) n4 unfolding snap(1)
      by (rule rostered_append)
    with admitted(10) show ?thesis by simp
  qed
  then show ?thesis
    unfolding occ by (simp add: orderly_def)
qed

lemma play_orderly:
  assumes "orderly s" "keptContract s evs" "admissionsApart s evs"
  shows "orderly (play s evs)"
  using assms
proof (induction evs arbitrary: s)
  case Nil
  then show ?case by simp
next
  case (Cons ev evs)
  have "orderly (occur s ev)"
  proof (cases ev)
    case (Submit pd)
    with Cons.prems show ?thesis by (simp add: orderly_Submit del: occur.simps)
  next
    case (Reply i r e)
    with Cons.prems show ?thesis by (auto intro: orderly_Reply simp del: occur.simps)
  next
    case (Discharge patientId now)
    with Cons.prems show ?thesis by (simp add: orderly_Discharge del: occur.simps)
  qed
  moreover from Cons.prems have "keptContract (occur s ev) evs" "admissionsApart (occur s ev) evs"
    by (cases ev; simp del: occur.simps)+
  ultimately show ?case
    using Cons.IH by simp
qed

lemma freshSession_orderly: "orderly (freshSession secs stf store)"
  by (simp add: orderly_def rostered_def freshSession_def startWith_def)

subsection \<open>Runs in the small hospital\<close>

lemma availableSections_single:
  "sections st = [sec] \<Longrightarrow>
   availableSections st =
     (if real_of_int (admittedCount (admittedPatients st) (section_id sec)) < capacity sec
      then [sec] else [])"
  by (simp add: availableSections_def)

lemma availableDoctors_team:
  "staff st = [house, wilson, florence, clara] \<Longrightarrow>
   availableDoctors st =
     filter (\<lambda>m. staff_id m \<notin> assignedDoctorId ` set (admittedPatients st)) [house, wilson]"
  by (simp add: availableDoctors_def assignedDoctorIds_def staff_roles)

lemma availableNurses_team:
  "staff st = [house, wilson, florence, clara] \<Longrightarrow>
   availableNurses st =
     filter (\<lambda>m. staff_id m \<notin> assignedNurseId ` set (admittedPatients st)) [florence, clara]"
  by (simp add: availableNurses_def assignedNurseIds_def staff_roles)

text \<open>
  The three runs in a configuration with one section and the four members of staff,
  nobody admitted: the admitted patients at the end, whether the resolver kept its
  contract, whether the admissions stayed apart.
\<close>

lemma rush_plays:
  assumes st0: "sections st0 = [sec]" "staff st0 = [house, wilson, florence, clara]"
      "admittedPatients st0 = []"
    and sec: "section_id sec = sid" "sid \<noteq> []" "0 < capacity sec"
  shows "admittedPatients (live (play \<lparr>live = st0, awaiting = []\<rparr> (rush sid))) =
           [makePatient ann morning sid ''d1'' ''n1'', makePatient bob noon sid ''d1'' ''n1'']"
    and "keptContract \<lparr>live = st0, awaiting = []\<rparr> (rush sid)"
    and "\<not> admissionsApart \<lparr>live = st0, awaiting = []\<rparr> (rush sid)"
proof -
  let ?pa = "makePatient ann morning sid ''d1'' ''n1''"
  let ?pb = "makePatient bob noon sid ''d1'' ''n1''"
  let ?st1 = "st0\<lparr>admittedPatients := [?pa],
                  storage := notifyStaff (staff st0) (storage st0) ?pa morning\<rparr>"
  let ?st2 = "?st1\<lparr>admittedPatients := [?pa, ?pb],
                   storage := notifyStaff (staff st0) (storage ?st1) ?pb noon\<rparr>"
  have free: "availableSections st0 = [sec]" "availableDoctors st0 = [house, wilson]"
    "availableNurses st0 = [florence, clara]"
    using st0 sec
    by (simp_all add: availableSections_single availableDoctors_team availableNurses_team
        admittedCount_def)
  have found: "find (\<lambda>s. section_id s = sid) (sections st0) = Some sec"
    using st0 sec by simp
  have room: "real_of_int (admittedCount (admittedPatients st0) sid) < capacity sec"
    using st0 sec by (simp add: admittedCount_def)
  have e1: "occur \<lparr>live = st0, awaiting = []\<rparr> (Submit ann) = \<lparr>live = st0, awaiting = [(st0, ann)]\<rparr>"
    by (simp add: free)
  have e2: "occur \<lparr>live = st0, awaiting = [(st0, ann)]\<rparr> (Submit bob) =
      \<lparr>live = st0, awaiting = [(st0, ann), (st0, bob)]\<rparr>"
    by (simp add: free)
  have e3: "occur \<lparr>live = st0, awaiting = [(st0, ann), (st0, bob)]\<rparr>
        (Reply 0 (answer sid ''d1'' ''n1'') morning) = \<lparr>live = ?st1, awaiting = [(st0, bob)]\<rparr>"
    using afterReply_answer[OF sec(2) _ _ found room, of "''d1''" "''n1''" st0 ann morning]
    by (simp add: st0)
  have e4: "occur \<lparr>live = ?st1, awaiting = [(st0, bob)]\<rparr>
        (Reply 0 (answer sid ''d1'' ''n1'') noon) = \<lparr>live = ?st2, awaiting = []\<rparr>"
    using afterReply_answer[OF sec(2) _ _ found room, of "''d1''" "''n1''" ?st1 bob noon]
    by simp
  show "admittedPatients (live (play \<lparr>live = st0, awaiting = []\<rparr> (rush sid))) = [?pa, ?pb]"
    by (simp add: rush_def rushBegun_def e1 e2 e3 e4 del: occur.simps)
  show "keptContract \<lparr>live = st0, awaiting = []\<rparr> (rush sid)"
    by (simp add: rush_def rushBegun_def e1 e2 e3 e4 offered_answer makeRequest_def free staff_ids
        del: occur.simps)
  show "\<not> admissionsApart \<lparr>live = st0, awaiting = []\<rparr> (rush sid)"
    by (simp add: rush_def rushBegun_def e1 del: occur.simps)
qed

lemma inTurn_plays:
  assumes st0: "sections st0 = [sec]" "staff st0 = [house, wilson, florence, clara]"
      "admittedPatients st0 = []"
    and sec: "section_id sec = sid" "sid \<noteq> []" "1 < capacity sec"
  shows "admittedPatients (live (play \<lparr>live = st0, awaiting = []\<rparr> (inTurn sid))) =
           [makePatient ann morning sid ''d1'' ''n1'', makePatient bob noon sid ''d2'' ''n2'']"
    and "keptContract \<lparr>live = st0, awaiting = []\<rparr> (inTurn sid)"
    and "admissionsApart \<lparr>live = st0, awaiting = []\<rparr> (inTurn sid)"
proof -
  let ?pa = "makePatient ann morning sid ''d1'' ''n1''"
  let ?pb = "makePatient bob noon sid ''d2'' ''n2''"
  let ?st1 = "st0\<lparr>admittedPatients := [?pa],
                  storage := notifyStaff (staff st0) (storage st0) ?pa morning\<rparr>"
  let ?st2 = "?st1\<lparr>admittedPatients := [?pa, ?pb],
                   storage := notifyStaff (staff ?st1) (storage ?st1) ?pb noon\<rparr>"
  have free: "availableSections st0 = [sec]" "availableDoctors st0 = [house, wilson]"
    "availableNurses st0 = [florence, clara]"
    using st0 sec
    by (simp_all add: availableSections_single availableDoctors_team availableNurses_team
        admittedCount_def)
  have free1: "availableSections ?st1 = [sec]" "availableDoctors ?st1 = [wilson]"
    "availableNurses ?st1 = [clara]"
    using st0 sec
    by (simp_all add: availableSections_single availableDoctors_team availableNurses_team
        admittedCount_def makePatient_simps staff_ids)
  have found: "find (\<lambda>s. section_id s = sid) (sections st0) = Some sec"
    "find (\<lambda>s. section_id s = sid) (sections ?st1) = Some sec"
    using st0 sec by simp_all
  have room: "real_of_int (admittedCount (admittedPatients st0) sid) < capacity sec"
    "real_of_int (admittedCount (admittedPatients ?st1) sid) < capacity sec"
    using st0 sec by (simp_all add: admittedCount_def makePatient_simps)
  have e1: "occur \<lparr>live = st0, awaiting = []\<rparr> (Submit ann) = \<lparr>live = st0, awaiting = [(st0, ann)]\<rparr>"
    by (simp add: free)
  have e2: "occur \<lparr>live = st0, awaiting = [(st0, ann)]\<rparr>
        (Reply 0 (answer sid ''d1'' ''n1'') morning) = \<lparr>live = ?st1, awaiting = []\<rparr>"
    using afterReply_answer[OF sec(2) _ _ found(1) room(1), of "''d1''" "''n1''" st0 ann morning]
    by (simp add: st0)
  have e3: "occur \<lparr>live = ?st1, awaiting = []\<rparr> (Submit bob) = \<lparr>live = ?st1, awaiting = [(?st1, bob)]\<rparr>"
    by (simp add: free1)
  have e4: "occur \<lparr>live = ?st1, awaiting = [(?st1, bob)]\<rparr>
        (Reply 0 (answer sid ''d2'' ''n2'') noon) = \<lparr>live = ?st2, awaiting = []\<rparr>"
    using afterReply_answer[OF sec(2) _ _ found(2) room(2), of "''d2''" "''n2''" ?st1 bob noon]
    by simp
  show "admittedPatients (live (play \<lparr>live = st0, awaiting = []\<rparr> (inTurn sid))) = [?pa, ?pb]"
    by (simp add: inTurn_def e1 e2 e3 e4 del: occur.simps)
  show "keptContract \<lparr>live = st0, awaiting = []\<rparr> (inTurn sid)"
    by (simp add: inTurn_def e1 e2 e3 e4 offered_answer makeRequest_def free free1 staff_ids
        del: occur.simps)
  show "admissionsApart \<lparr>live = st0, awaiting = []\<rparr> (inTurn sid)"
    by (simp add: inTurn_def e1 e2 e3 e4 del: occur.simps)
qed

lemma repeated_plays:
  "admittedPatients (live (play \<lparr>live = hospital, awaiting = []\<rparr> repeated)) =
     [makePatient ann morning ''s1'' ''d1'' ''n1'', makePatient bob noon ''s1'' ''d1'' ''n1'']"
  "\<not> keptContract \<lparr>live = hospital, awaiting = []\<rparr> repeated"
  "admissionsApart \<lparr>live = hospital, awaiting = []\<rparr> repeated"
proof -
  let ?pa = "makePatient ann morning ''s1'' ''d1'' ''n1''"
  let ?pb = "makePatient bob noon ''s1'' ''d1'' ''n1''"
  let ?st1 = "hospital\<lparr>admittedPatients := [?pa],
                  storage := notifyStaff (staff hospital) (storage hospital) ?pa morning\<rparr>"
  let ?st2 = "?st1\<lparr>admittedPatients := [?pa, ?pb],
                   storage := notifyStaff (staff ?st1) (storage ?st1) ?pb noon\<rparr>"
  have free1: "availableSections ?st1 = [icu]" "availableDoctors ?st1 = [wilson]"
    "availableNurses ?st1 = [clara]"
    by (simp_all add: availableSections_single availableDoctors_team availableNurses_team
        admittedCount_def makePatient_simps staff_ids hospital_simps icu_simps)
  have found: "find (\<lambda>s. section_id s = ''s1'') (sections hospital) = Some icu"
    "find (\<lambda>s. section_id s = ''s1'') (sections ?st1) = Some icu"
    by (simp_all add: hospital_simps icu_simps)
  have room: "real_of_int (admittedCount (admittedPatients hospital) ''s1'') < capacity icu"
    "real_of_int (admittedCount (admittedPatients ?st1) ''s1'') < capacity icu"
    by (simp_all add: admittedCount_def makePatient_simps hospital_simps icu_simps)
  have e1: "occur \<lparr>live = hospital, awaiting = []\<rparr> (Submit ann) =
      \<lparr>live = hospital, awaiting = [(hospital, ann)]\<rparr>"
    by (simp add: hospital_free)
  have e2: "occur \<lparr>live = hospital, awaiting = [(hospital, ann)]\<rparr>
        (Reply 0 (answer ''s1'' ''d1'' ''n1'') morning) = \<lparr>live = ?st1, awaiting = []\<rparr>"
    using afterReply_answer[OF _ _ _ found(1) room(1), of "''d1''" "''n1''" hospital ann morning]
    by (simp add: hospital_simps)
  have e3: "occur \<lparr>live = ?st1, awaiting = []\<rparr> (Submit bob) = \<lparr>live = ?st1, awaiting = [(?st1, bob)]\<rparr>"
    by (simp add: free1)
  have e4: "occur \<lparr>live = ?st1, awaiting = [(?st1, bob)]\<rparr>
        (Reply 0 (answer ''s1'' ''d1'' ''n1'') noon) = \<lparr>live = ?st2, awaiting = []\<rparr>"
    using afterReply_answer[OF _ _ _ found(2) room(2), of "''d1''" "''n1''" ?st1 bob noon]
    by simp
  show "admittedPatients (live (play \<lparr>live = hospital, awaiting = []\<rparr> repeated)) = [?pa, ?pb]"
    by (simp add: repeated_def e1 e2 e3 e4 del: occur.simps)
  show "\<not> keptContract \<lparr>live = hospital, awaiting = []\<rparr> repeated"
    by (simp add: repeated_def e1 e2 e3 e4 offered_answer makeRequest_def hospital_free free1 staff_ids
        del: occur.simps)
  show "admissionsApart \<lparr>live = hospital, awaiting = []\<rparr> repeated"
    by (simp add: repeated_def e1 e2 e3 e4 del: occur.simps)
qed

lemma freshSession_hospital:
  "freshSession [icu] [house, wilson, florence, clara] emptyStorage = \<lparr>live = hospital, awaiting = []\<rparr>"
  by (simp add: freshSession_def hospital_def)

lemma freshSession_clinic:
  "freshSession [sideRoom] [house, wilson, florence, clara] emptyStorage = \<lparr>live = clinic, awaiting = []\<rparr>"
  by (simp add: freshSession_def clinic_def)

lemma nook_simps:
  "sections nook = [alcove]" "staff nook = [house, wilson, florence, clara]"
  "admittedPatients nook = []"
  by (simp_all add: nook_def startWith_def)

lemma freshSession_nook:
  "freshSession [alcove] [house, wilson, florence, clara] emptyStorage = \<lparr>live = nook, awaiting = []\<rparr>"
  by (simp add: freshSession_def nook_def)


subsection \<open>Staff exclusivity\<close>

text \<open>
  Claim C2, as it is written, in two runs that start with nobody admitted. In the first
  the two admissions come one after the other and the second reply names the doctor and
  nurse of the first patient, who were not offered. In the second Bob's form is submitted
  while Ann's call waits: both calls offer the first doctor and the first nurse, both
  replies name them, as the contract allows. Either way both patients are admitted with
  the same doctor and the same nurse.
\<close>

theorem staff_shared_by_two_patients:
  "admissionsApart (freshSession [icu] [house, wilson, florence, clara] emptyStorage) repeated
   \<and> admittedPatients (live (play (freshSession [icu] [house, wilson, florence, clara] emptyStorage) repeated))
       = [makePatient ann morning ''s1'' ''d1'' ''n1'', makePatient bob noon ''s1'' ''d1'' ''n1'']
   \<and> \<not> staffExclusive (admittedPatients
         (live (play (freshSession [icu] [house, wilson, florence, clara] emptyStorage) repeated)))
   \<and> keptContract (freshSession [icu] [house, wilson, florence, clara] emptyStorage) (rush ''s1'')
   \<and> distinct (map staff_id [house, wilson, florence, clara])
   \<and> admittedPatients (live (play (freshSession [icu] [house, wilson, florence, clara] emptyStorage) (rush ''s1'')))
       = [makePatient ann morning ''s1'' ''d1'' ''n1'', makePatient bob noon ''s1'' ''d1'' ''n1'']
   \<and> \<not> staffExclusive (admittedPatients
         (live (play (freshSession [icu] [house, wilson, florence, clara] emptyStorage) (rush ''s1''))))"
proof -
  have shared: "\<not> staffExclusive
      [makePatient ann morning ''s1'' ''d1'' ''n1'', makePatient bob noon ''s1'' ''d1'' ''n1'']"
    by (simp add: makePatient_simps)
  have rush: "admittedPatients (live (play \<lparr>live = hospital, awaiting = []\<rparr> (rush ''s1''))) =
           [makePatient ann morning ''s1'' ''d1'' ''n1'', makePatient bob noon ''s1'' ''d1'' ''n1'']"
    "keptContract \<lparr>live = hospital, awaiting = []\<rparr> (rush ''s1'')"
    by (rule rush_plays[where sec = icu]; simp add: hospital_simps icu_simps)+
  from shared rush repeated_plays show ?thesis
    by (simp add: freshSession_hospital staff_ids)
qed


text \<open>
  Claim C2, amended. Start with nobody admitted and a configuration whose staff ids are
  pairwise distinct. After any sequence of admissions and discharges in which no
  admission form is submitted while another admission waits for the resolver, and in
  which every reply of the resolver names a doctor and a nurse among the candidates its
  call offered, no staff id stands on more than one admitted patient, in whichever of the
  two slots.
\<close>

theorem staff_exclusive_when_apart:
  assumes "distinct (map staff_id stf)"
    and "keptContract (freshSession secs stf store) evs"
    and "admissionsApart (freshSession secs stf store) evs"
  shows "staffExclusive (admittedPatients (live (play (freshSession secs stf store) evs)))"
proof -
  have "orderly (play (freshSession secs stf store) evs)"
    using freshSession_orderly assms(2,3) by (rule play_orderly)
  then have "rostered (staff (live (play (freshSession secs stf store) evs)))
      (admittedPatients (live (play (freshSession secs stf store) evs)))"
    by (simp add: orderly_def)
  moreover have "staff (live (play (freshSession secs stf store) evs)) = stf"
  proof -
    have "staff (live (play s evs)) = staff (live s)" for s
      by (induction evs arbitrary: s) simp_all
    then show ?thesis by (simp add: freshSession_def startWith_def)
  qed
  ultimately show ?thesis
    using assms(1) by (simp add: rostered_exclusive)
qed

theorem staff_exclusive_when_apart_witness:
  "distinct (map staff_id [house, wilson, florence, clara])
   \<and> keptContract (freshSession [icu] [house, wilson, florence, clara] emptyStorage) (inTurn ''s1'')
   \<and> admissionsApart (freshSession [icu] [house, wilson, florence, clara] emptyStorage) (inTurn ''s1'')
   \<and> admittedPatients (live (play (freshSession [icu] [house, wilson, florence, clara] emptyStorage) (inTurn ''s1'')))
       = [annAdmitted, bobAdmitted]
   \<and> staffExclusive (admittedPatients
       (live (play (freshSession [icu] [house, wilson, florence, clara] emptyStorage) (inTurn ''s1''))))"
proof -
  have d: "distinct (map staff_id [house, wilson, florence, clara])"
    by (simp add: staff_ids)
  have run: "admittedPatients (live (play \<lparr>live = hospital, awaiting = []\<rparr> (inTurn ''s1''))) =
           [makePatient ann morning ''s1'' ''d1'' ''n1'', makePatient bob noon ''s1'' ''d2'' ''n2'']"
    "keptContract \<lparr>live = hospital, awaiting = []\<rparr> (inTurn ''s1'')"
    "admissionsApart \<lparr>live = hospital, awaiting = []\<rparr> (inTurn ''s1'')"
    by (rule inTurn_plays[where sec = icu]; simp add: hospital_simps icu_simps)+
  from d run
    staff_exclusive_when_apart[of "[house, wilson, florence, clara]" "[icu]" emptyStorage "inTurn ''s1''"]
  show ?thesis
    by (simp add: freshSession_hospital annAdmitted_def bobAdmitted_def)
qed


subsection \<open>Section capacity\<close>

text \<open>
  Claim C3, in two runs that start with nobody admitted. In the clinic, whose side room
  has capacity 1, Bob's form is submitted while Ann's call waits; the resolver keeps its
  contract; both replies are tested against the count of the state their call was made
  in, which is 0, and the side room ends with two patients. In the nook, whose alcove has
  the capacity 1.5 that the setup form accepts, the two admissions come one after the
  other; the second is tested with 1 < 1.5, and the alcove ends with two patients.
\<close>

theorem capacity_exceeded:
  "capacity sideRoom = 1
   \<and> keptContract (freshSession [sideRoom] [house, wilson, florence, clara] emptyStorage)
        (rush (section_id sideRoom))
   \<and> admittedCount
        (admittedPatients (live (play
           (freshSession [sideRoom] [house, wilson, florence, clara] emptyStorage)
           (rush (section_id sideRoom)))))
        (section_id sideRoom) = 2
   \<and> capacity alcove = 3 / 2
   \<and> keptContract (freshSession [alcove] [house, wilson, florence, clara] emptyStorage)
        (inTurn (section_id alcove))
   \<and> admissionsApart (freshSession [alcove] [house, wilson, florence, clara] emptyStorage)
        (inTurn (section_id alcove))
   \<and> admittedCount
        (admittedPatients (live (play
           (freshSession [alcove] [house, wilson, florence, clara] emptyStorage)
           (inTurn (section_id alcove)))))
        (section_id alcove) = 2"
proof -
  have rush: "admittedPatients (live (play \<lparr>live = clinic, awaiting = []\<rparr> (rush ''s2''))) =
           [makePatient ann morning ''s2'' ''d1'' ''n1'', makePatient bob noon ''s2'' ''d1'' ''n1'']"
    "keptContract \<lparr>live = clinic, awaiting = []\<rparr> (rush ''s2'')"
    by (rule rush_plays[where sec = sideRoom]; simp add: clinic_simps sideRoom_simps)+
  have turn: "admittedPatients (live (play \<lparr>live = nook, awaiting = []\<rparr> (inTurn ''s3''))) =
           [makePatient ann morning ''s3'' ''d1'' ''n1'', makePatient bob noon ''s3'' ''d2'' ''n2'']"
    "keptContract \<lparr>live = nook, awaiting = []\<rparr> (inTurn ''s3'')"
    "admissionsApart \<lparr>live = nook, awaiting = []\<rparr> (inTurn ''s3'')"
    by (rule inTurn_plays[where sec = alcove]; simp add: nook_simps alcove_simps)+
  from rush turn show ?thesis
    by (simp add: freshSession_clinic freshSession_nook sideRoom_simps alcove_simps
        admittedCount_def makePatient_simps)
qed


end
